theory Spec2Isabelle
  imports Main "HOL-Library.AList"
begin

section \<open>Host-language strings\<close>

text \<open>
  A string of the host language is kept as its UTF-8 bytes: a character below U+0080 is
  one \<open>char\<close>, any other character of the basic plane is two or three, and a character
  beyond it (a surrogate pair of the host language) is four. The host language counts
  and indexes strings by UTF-16 code units, so \<open>char_width\<close> and \<open>js_length\<close> read these
  off the bytes.

  \<^verbatim>\<open>String.prototype.toLowerCase\<close> belongs to the platform. On a string of characters
  below U+0080 it lowers the letters A to Z and nothing else, which is written out here;
  on any other string it is the parameter \<open>lower\<close>, the platform's function on strings
  that hold a character from U+0080 on. \<^verbatim>\<open>toUpperCase\<close> is only ever applied to one
  character matched by \<^verbatim>\<open>\w\<close>, which is below U+0080.
\<close>

definition upper_letters :: string where
  \<open>upper_letters = ''ABCDEFGHIJKLMNOPQRSTUVWXYZ''\<close>

definition lower_letters :: string where
  \<open>lower_letters = ''abcdefghijklmnopqrstuvwxyz''\<close>

definition digit_chars :: string where
  \<open>digit_chars = ''0123456789''\<close>

definition is_ascii :: \<open>char \<Rightarrow> bool\<close> where
  \<open>is_ascii c \<longleftrightarrow> \<not> digit7 c\<close>

definition is_continuation :: \<open>char \<Rightarrow> bool\<close> where
  \<open>is_continuation c \<longleftrightarrow> digit7 c \<and> \<not> digit6 c\<close>

definition is_lead4 :: \<open>char \<Rightarrow> bool\<close> where
  \<open>is_lead4 c \<longleftrightarrow> digit7 c \<and> digit6 c \<and> digit5 c \<and> digit4 c\<close>

text \<open>The number of bytes of the character that starts with the byte \<open>c\<close>.\<close>

definition char_width :: \<open>char \<Rightarrow> nat\<close> where
  \<open>char_width c =
     (if digit7 c \<and> digit6 c \<and> digit5 c \<and> digit4 c then 4
      else if digit7 c \<and> digit6 c \<and> digit5 c then 3
      else if digit7 c \<and> digit6 c then 2
      else 1)\<close>

text \<open>\<^verbatim>\<open>str.length\<close>: one unit for every character, two for one beyond the basic plane.\<close>

definition js_length :: \<open>string \<Rightarrow> nat\<close> where
  \<open>js_length s = length (filter (\<lambda>c. \<not> is_continuation c) s) + length (filter is_lead4 s)\<close>

definition toLowerCase_ascii :: \<open>char \<Rightarrow> char\<close> where
  \<open>toLowerCase_ascii c =
     (case map_of (zip upper_letters lower_letters) c of Some d \<Rightarrow> d | None \<Rightarrow> c)\<close>

definition toUpperCase_ascii :: \<open>char \<Rightarrow> char\<close> where
  \<open>toUpperCase_ascii c =
     (case map_of (zip lower_letters upper_letters) c of Some d \<Rightarrow> d | None \<Rightarrow> c)\<close>

definition toLowerCase :: \<open>(string \<Rightarrow> string) \<Rightarrow> string \<Rightarrow> string\<close> where
  \<open>toLowerCase lower s = (if list_all is_ascii s then map toLowerCase_ascii s else lower s)\<close>

text \<open>
  The character classes of the regular expression \<^verbatim>\<open>/\w\S*/g\<close>. \<^verbatim>\<open>\w\<close> is a letter A
  to Z or a to z, a digit or the underscore. \<^verbatim>\<open>\s\<close> is one of the characters of
  \<open>space_chars\<close>: tab, line feed, vertical tab, form feed, carriage return, space, U+00A0,
  U+1680, U+2000 to U+200A, U+2028, U+2029, U+202F, U+205F, U+3000 and U+FEFF.
\<close>

definition is_word_char :: \<open>char \<Rightarrow> bool\<close> where
  \<open>is_word_char c \<longleftrightarrow> c \<in> set (upper_letters @ lower_letters @ digit_chars @ ''_'')\<close>

definition space_chars :: \<open>string list\<close> where
  \<open>space_chars =
     [[CHR 0x09], [CHR 0x0A], [CHR 0x0B], [CHR 0x0C], [CHR 0x0D], [CHR 0x20],
      [CHR 0xC2, CHR 0xA0], [CHR 0xE1, CHR 0x9A, CHR 0x80],
      [CHR 0xE2, CHR 0x80, CHR 0x80], [CHR 0xE2, CHR 0x80, CHR 0x81],
      [CHR 0xE2, CHR 0x80, CHR 0x82], [CHR 0xE2, CHR 0x80, CHR 0x83],
      [CHR 0xE2, CHR 0x80, CHR 0x84], [CHR 0xE2, CHR 0x80, CHR 0x85],
      [CHR 0xE2, CHR 0x80, CHR 0x86], [CHR 0xE2, CHR 0x80, CHR 0x87],
      [CHR 0xE2, CHR 0x80, CHR 0x88], [CHR 0xE2, CHR 0x80, CHR 0x89],
      [CHR 0xE2, CHR 0x80, CHR 0x8A], [CHR 0xE2, CHR 0x80, CHR 0xA8],
      [CHR 0xE2, CHR 0x80, CHR 0xA9], [CHR 0xE2, CHR 0x80, CHR 0xAF],
      [CHR 0xE2, CHR 0x81, CHR 0x9F], [CHR 0xE3, CHR 0x80, CHR 0x80],
      [CHR 0xEF, CHR 0xBB, CHR 0xBF]]\<close>

definition starts_space :: \<open>string \<Rightarrow> bool\<close> where
  \<open>starts_space s \<longleftrightarrow> list_ex (\<lambda>p. take (length p) s = p) space_chars\<close>

text \<open>The number of bytes that \<^verbatim>\<open>\S*\<close> matches at the start of a string.\<close>

fun non_space_length :: \<open>string \<Rightarrow> nat\<close> where
  \<open>non_space_length [] = 0\<close>
| \<open>non_space_length (c # cs) =
     (if starts_space (c # cs) then 0 else Suc (non_space_length cs))\<close>

text \<open>\<^verbatim>\<open>items.join(sep)\<close>, \<^verbatim>\<open>str.split(c)\<close> for a one-character separator and
  \<^verbatim>\<open>str.padEnd(n)\<close>.\<close>

fun join :: \<open>string \<Rightarrow> string list \<Rightarrow> string\<close> where
  \<open>join sep [] = []\<close>
| \<open>join sep [x] = x\<close>
| \<open>join sep (x # y # ys) = x @ sep @ join sep (y # ys)\<close>

fun split_on :: \<open>char \<Rightarrow> string \<Rightarrow> string list\<close> where
  \<open>split_on c [] = [[]]\<close>
| \<open>split_on c (x # xs) =
     (if x = c then [] # split_on c xs
      else (case split_on c xs of [] \<Rightarrow> [[x]] | w # ws \<Rightarrow> (x # w) # ws))\<close>

definition padEnd :: \<open>nat \<Rightarrow> string \<Rightarrow> string\<close> where
  \<open>padEnd n s = s @ replicate (n - js_length s) CHR '' ''\<close>

text \<open>Truthiness of an optional string: absent and empty strings are falsy.\<close>

fun truthy_str :: \<open>string option \<Rightarrow> bool\<close> where
  \<open>truthy_str None = False\<close>
| \<open>truthy_str (Some s) = (s \<noteq> [])\<close>

text \<open>\<^verbatim>\<open>Array.from(new Set(items))\<close>: the first occurrence of every element, in order.\<close>

definition set_add :: \<open>'a list \<Rightarrow> 'a \<Rightarrow> 'a list\<close> where
  \<open>set_add seen x = (if x \<in> set seen then seen else seen @ [x])\<close>

definition uniq :: \<open>string list \<Rightarrow> string list\<close> where
  \<open>uniq items = foldl set_add [] items\<close>

text \<open>Object spread \<^verbatim>\<open>{...a, ...b}\<close> on objects kept as association lists in key
  insertion order: a key of \<open>b\<close> already in \<open>a\<close> keeps its place and takes the value of
  \<open>b\<close>, a new key is appended.\<close>

definition spread :: \<open>('k \<times> 'v) list \<Rightarrow> ('k \<times> 'v) list \<Rightarrow> ('k \<times> 'v) list\<close> where
  \<open>spread a b = fold (\<lambda>(k, v). AList.update k v) b a\<close>


section \<open>Data model (swagger.interfaces.ts)\<close>

text \<open>
  Each interface becomes a record (a datatype where it is recursive) holding the fields
  the generator reads; an optional field \<^verbatim>\<open>f?: T\<close> is a \<open>T option\<close>. The fields of
  the interfaces that the generator never reads (\<^verbatim>\<open>consumes\<close>, \<^verbatim>\<open>produces\<close>,
  \<^verbatim>\<open>notes\<close>, \<^verbatim>\<open>responseMessages\<close>, \<^verbatim>\<open>swaggerVersion\<close>, the \<^verbatim>\<open>format\<close> of an
  operation) are left out. Objects used as dictionaries are association lists in key order.
\<close>

datatype IModelProperty =
  IModelProperty
    (prop_type: \<open>string option\<close>)
    (prop_description: \<open>string option\<close>)
    (prop_items: \<open>IModelProperty option\<close>)
    (prop_format: \<open>string option\<close>)
    (prop_ref: \<open>string option\<close>)

record IModel =
  model_id :: string
  model_required :: \<open>string list\<close>
  model_properties :: \<open>(string \<times> IModelProperty) list\<close>

record IParameter =
  param_description :: string
  param_enum :: \<open>string list option\<close>
  param_format :: \<open>string option\<close>
  param_name :: string
  param_paramType :: \<open>string option\<close>
  param_required :: bool
  param_type :: string

record IOperation =
  op_method :: string
  op_nickname :: string
  op_parameters :: \<open>IParameter list\<close>
  op_summary :: string
  op_type :: string

record IApiOperations =
  ao_operations :: \<open>IOperation list\<close>
  ao_path :: string

record IApi =
  api_apiVersion :: string
  api_apis :: \<open>IApiOperations list\<close>
  api_basePath :: string
  api_description :: string
  api_models :: \<open>(string \<times> IModel) list\<close>
  api_resourcePath :: string

record ISchemaApiInfo =
  info_description :: string
  info_path :: string

record ISchemaApi =
  schema_apis :: \<open>ISchemaApiInfo list\<close>
  schema_basePath :: string

record IGenerateApisOptions =
  opt_url :: string
  opt_dest :: string
  opt_splitInterfaces :: bool
  opt_groupClass :: string


section \<open>Names and types\<close>

text \<open>The functions that lower a string take the platform's \<open>lower\<close> as their first
  argument.\<close>

function toTitleCase :: \<open>(string \<Rightarrow> string) \<Rightarrow> string \<Rightarrow> string\<close> where
  \<open>toTitleCase lower [] = []\<close>
| \<open>toTitleCase lower (c # cs) =
     (if is_word_char c
      then toUpperCase_ascii c # toLowerCase lower (take (non_space_length cs) cs)
             @ toTitleCase lower (drop (non_space_length cs) cs)
      else c # toTitleCase lower cs)\<close>
  by pat_completeness auto
termination
  by (relation \<open>measure (\<lambda>(lower, s). length s)\<close>) auto

text \<open>
  \<^verbatim>\<open>str.charAt(0).toLowerCase() + str.substr(1)\<close>. The first code unit of a string that
  starts with a character beyond the basic plane is a lone surrogate, which lowering
  leaves as it is, so such a string comes back unchanged.
\<close>

fun unTitleCase :: \<open>(string \<Rightarrow> string) \<Rightarrow> string \<Rightarrow> string\<close> where
  \<open>unTitleCase lower [] = []\<close>
| \<open>unTitleCase lower (c # cs) =
     (if is_lead4 c then c # cs
      else toLowerCase lower (take (char_width c) (c # cs)) @ drop (char_width c) (c # cs))\<close>

definition getApiName :: \<open>(string \<Rightarrow> string) \<Rightarrow> IApi \<Rightarrow> string\<close> where
  \<open>getApiName lower api =
     concat (map (toTitleCase lower)
       (filter (\<lambda>s. s \<noteq> [] \<and> s \<noteq> api_apiVersion api \<and> hd s \<noteq> CHR ''{'')
         (split_on CHR ''/'' (api_resourcePath api))))\<close>

definition getTsInterfaceName :: \<open>string \<Rightarrow> string\<close> where
  \<open>getTsInterfaceName modelId = (if modelId \<noteq> [] then ''I'' @ modelId else ''unknown'')\<close>

definition mapType :: \<open>string option \<Rightarrow> string\<close> where
  \<open>mapType t =
     (if t = Some ''integer'' then ''number''
      else if t = Some ''number'' then ''number''
      else if t = Some ''string'' then ''string''
      else (case t of None \<Rightarrow> ''unknown'' | Some s \<Rightarrow> if s \<noteq> [] then s else ''unknown''))\<close>

function getTsPropertyType :: \<open>IModelProperty \<Rightarrow> string\<close> where
  \<open>getTsPropertyType property =
     (if prop_type property = Some ''array'' \<and> prop_items property \<noteq> None
      then getTsPropertyType (the (prop_items property)) @ ''[]''
      else if truthy_str (prop_ref property)
      then getTsInterfaceName (the (prop_ref property))
      else mapType (prop_type property))\<close>
  by pat_completeness auto
termination
proof (relation \<open>measure size\<close>)
  show \<open>wf (measure (size :: IModelProperty \<Rightarrow> nat))\<close>
    by simp
next
  fix property :: IModelProperty
  assume \<open>prop_type property = Some ''array'' \<and> prop_items property \<noteq> None\<close>
  then show \<open>(the (prop_items property), property) \<in> measure size\<close>
    by (cases property) auto
qed

definition quoted :: \<open>string \<Rightarrow> string\<close> where
  \<open>quoted s = [CHR 0x27] @ s @ [CHR 0x27]\<close>

definition getTsParameterType :: \<open>IParameter \<Rightarrow> string\<close> where
  \<open>getTsParameterType property =
     (case param_enum property of
        Some e \<Rightarrow> join '' | '' (map quoted e)
      | None \<Rightarrow>
          (if param_paramType property = Some ''body''
           then getTsInterfaceName (param_type property)
           else mapType (Some (param_type property))))\<close>


section \<open>Renderers (generator with documentation blocks)\<close>

text \<open>
  The sources hold two generator modules that define the same function names. The first
  one (with \<^verbatim>\<open>getTsParam\<close> and the documentation blocks) keeps the source names here;
  the functions of the second one carry the suffix \<open>2\<close> (next section). Local variables
  and loop bodies that a theorem must mention are given names derived from the function
  they belong to.
\<close>

definition getTsInterface_interfaces :: \<open>IModel \<Rightarrow> string list\<close> where
  \<open>getTsInterface_interfaces model =
     map (\<lambda>modelId. getTsInterfaceName (the modelId))
       (filter truthy_str
         (map (\<lambda>prop. case prop of None \<Rightarrow> None | Some p \<Rightarrow> prop_ref p)
           (map (\<lambda>(name, property). Some property) (model_properties model)
            @ map (\<lambda>(name, property). prop_items property) (model_properties model))))\<close>

definition getTsInterface_field :: \<open>IModel \<Rightarrow> string \<Rightarrow> string \<times> IModelProperty \<Rightarrow> string\<close> where
  \<open>getTsInterface_field model out entry =
     (case entry of (name, property) \<Rightarrow>
       (let out = out @ ''\<newline>'';
            out = (if truthy_str (prop_description property)
                   then out @ ''  // '' @ the (prop_description property) else out);
            type = getTsPropertyType property;
            required = (if name \<in> set (model_required model) then '''' else ''?'')
        in out @ ''\<newline>  '' @ name @ required @ '': '' @ type @ '';''))\<close>

text \<open>The text \<^verbatim>\<open>out\<close> holds when \<^verbatim>\<open>getTsInterface\<close> reaches the declaration: the
  import lines in split mode, nothing otherwise. Both modules compute it alike.\<close>

definition getTsInterface_imports :: \<open>IModel \<Rightarrow> IGenerateApisOptions \<Rightarrow> string\<close> where
  \<open>getTsInterface_imports model options =
     (let out = ''''
      in if opt_splitInterfaces options
         then (let out = out @ join ''\<newline>''
                           (map (\<lambda>name. ''import { '' @ name @ '' } from "./'' @ name @ ''";'')
                             (getTsInterface_interfaces model))
               in if out \<noteq> [] then out @ ''\<newline>\<newline>'' else out)
         else out)\<close>

definition getTsInterface :: \<open>IModel \<Rightarrow> IGenerateApisOptions \<Rightarrow> string\<close> where
  \<open>getTsInterface model options =
     (let out = getTsInterface_imports model options;
          out = out @ ''export interface '' @ getTsInterfaceName (model_id model) @ '' {'';
          out = foldl (getTsInterface_field model) out (model_properties model)
      in out @ ''\<newline>}'')\<close>

definition getTsOperationOptionsInterfaceName :: \<open>IOperation \<Rightarrow> string\<close> where
  \<open>getTsOperationOptionsInterfaceName operation = ''I'' @ op_nickname operation @ ''Options''\<close>

definition getTsParam :: \<open>IParameter \<Rightarrow> string\<close> where
  \<open>getTsParam parameter =
     (let required = (if param_required parameter then '''' else ''?'');
          type = getTsParameterType parameter;
          out = '''';
          out = (if param_description parameter \<noteq> []
                 then out @ ''\<newline>    // '' @ param_description parameter else out)
      in out @ ''\<newline>    '' @ param_name parameter @ required @ '': '' @ type @ '';'')\<close>

definition getTsOperationOptionsInterface_groups ::
  \<open>string \<times> string \<times> string \<Rightarrow> IParameter \<Rightarrow> string \<times> string \<times> string\<close> where
  \<open>getTsOperationOptionsInterface_groups acc param =
     (case acc of (body, query, params) \<Rightarrow>
       (let body = (if param_paramType param = Some ''body''
                    then body @ getTsParam param else body);
            query = (if param_paramType param = Some ''query''
                     then query @ getTsParam param else query);
            params = (if param_paramType param = Some ''path''
                      then params @ getTsParam param else params)
        in (body, query, params)))\<close>

text \<open>The text \<^verbatim>\<open>out\<close> holds when \<^verbatim>\<open>getTsOperationOptionsInterface\<close> reaches the
  declaration. An array appended to a string is joined with commas.\<close>

definition getTsOperationOptionsInterface_imports :: \<open>IOperation \<Rightarrow> IGenerateApisOptions \<Rightarrow> string\<close> where
  \<open>getTsOperationOptionsInterface_imports operation options =
     (let out = ''''
      in if opt_splitInterfaces options
         then (let out = out @ ''import { IOperationOptions } from "../Api";'';
                   interfaces =
                     map (\<lambda>param. getTsInterfaceName (param_type param))
                       (filter (\<lambda>param. param_paramType param = Some ''body'')
                         (op_parameters operation));
                   out = out @ join '',''
                           (map (\<lambda>name. ''\<newline>import { '' @ name @ '' } from "./'' @ name @ ''";'')
                             (uniq interfaces))
               in if out \<noteq> [] then out @ ''\<newline>\<newline>'' else out)
         else out)\<close>

definition getTsOperationOptionsInterface :: \<open>IOperation \<Rightarrow> IGenerateApisOptions \<Rightarrow> string\<close> where
  \<open>getTsOperationOptionsInterface operation options =
     (case foldl getTsOperationOptionsInterface_groups ('''', '''', '''') (op_parameters operation) of
       (body, query, params) \<Rightarrow>
       (let out = getTsOperationOptionsInterface_imports operation options;
            out = out @ ''export interface '' @ getTsOperationOptionsInterfaceName operation
                      @ '' extends IOperationOptions {'';
            out = (if body \<noteq> []
                   then (let bodyRequired =
                               list_ex param_required
                                 (filter (\<lambda>p. param_paramType p = Some ''body'') (op_parameters operation))
                         in out @ ''\<newline>  body'' @ (if bodyRequired then '''' else ''?'') @ '': {''
                                @ body @ ''\<newline>  };\<newline>'')
                   else out);
            out = (if query \<noteq> []
                   then (let queryRequired =
                               list_ex param_required
                                 (filter (\<lambda>p. param_paramType p = Some ''query'') (op_parameters operation))
                         in out @ ''\<newline>  query'' @ (if queryRequired then '''' else ''?'') @ '': {''
                                @ query @ ''\<newline>  };'')
                   else out);
            out = (if params \<noteq> []
                   then (let paramsRequired =
                               list_ex param_required
                                 (filter (\<lambda>p. param_paramType p = Some ''path'') (op_parameters operation))
                         in out @ ''\<newline>  params'' @ (if paramsRequired then '''' else ''?'') @ '': {''
                                @ params @ ''\<newline>  };'')
                   else out)
        in out @ ''\<newline>}''))\<close>

definition getJsDocParamType :: \<open>IParameter \<Rightarrow> string\<close> where
  \<open>getJsDocParamType parameter =
     (if param_paramType parameter = Some ''body'' then ''object''
      else mapType (Some (param_type parameter)))\<close>

definition getJsDocParam :: \<open>IParameter \<Rightarrow> string\<close> where
  \<open>getJsDocParam parameter =
     (let t = padEnd 7 (getJsDocParamType parameter);
          n = (if param_required parameter then '' '' else ''['') @ param_name parameter
                @ (if param_required parameter then '''' else '']'');
          d = param_description parameter;
          d = (if param_paramType parameter = Some ''body''
               then d @ getTsInterfaceName (param_type parameter) else d);
          d = (case param_enum parameter of
                 Some e \<Rightarrow> d @ '' ('' @ join ''|'' (map quoted e) @ '')''
               | None \<Rightarrow> d)
      in ''\<newline>   * @param   '' @ t @ '' '' @ n @ '' - '' @ d)\<close>

definition getJsDocOperation_groups ::
  \<open>string \<times> string \<times> string \<Rightarrow> IParameter \<Rightarrow> string \<times> string \<times> string\<close> where
  \<open>getJsDocOperation_groups acc param =
     (case acc of (body, query, params) \<Rightarrow>
       (let body = (if param_paramType param = Some ''body''
                    then body @ getJsDocParam
                           (param\<lparr>param_name := ''options.body.'' @ param_name param\<rparr>)
                    else body);
            query = (if param_paramType param = Some ''query''
                     then query @ getJsDocParam
                            (param\<lparr>param_name := ''options.query.'' @ param_name param\<rparr>)
                     else query);
            params = (if param_paramType param = Some ''path''
                      then params @ getJsDocParam
                             (param\<lparr>param_name := ''options.params.'' @ param_name param\<rparr>)
                      else params)
        in (body, query, params)))\<close>

text \<open>The object literals \<^verbatim>\<open>{ name, type: 'object', required, description }\<close> that
  \<^verbatim>\<open>getJsDocOperation\<close> passes to \<^verbatim>\<open>getJsDocParam\<close>: every other field is absent.\<close>

definition getJsDocOperation_object :: \<open>string \<Rightarrow> bool \<Rightarrow> string \<Rightarrow> IParameter\<close> where
  \<open>getJsDocOperation_object name required description =
     \<lparr>param_description = description, param_enum = None, param_format = None,
      param_name = name, param_paramType = None, param_required = required,
      param_type = ''object''\<rparr>\<close>

definition getJsDocOperation :: \<open>IOperation \<Rightarrow> string\<close> where
  \<open>getJsDocOperation operation =
     (case foldl getJsDocOperation_groups ('''', '''', '''') (op_parameters operation) of
       (body, query, params) \<Rightarrow>
       (let out = '''';
            out = out @ ''  /**'';
            out = out @ ''\<newline>   * '' @ op_summary operation;
            out = out @ getJsDocParam
                    (getJsDocOperation_object ''options''
                       (list_ex param_required (op_parameters operation))
                       (getTsOperationOptionsInterfaceName operation));
            out = (if body \<noteq> []
                   then out @ getJsDocParam
                          (getJsDocOperation_object ''options.body''
                             (list_ex param_required
                               (filter (\<lambda>p. param_type p = ''body'') (op_parameters operation)))
                             ''body params'') @ body
                   else out);
            out = (if query \<noteq> []
                   then out @ getJsDocParam
                          (getJsDocOperation_object ''options.query''
                             (list_ex param_required
                               (filter (\<lambda>p. param_type p = ''query'') (op_parameters operation)))
                             ''query params'') @ query
                   else out);
            out = (if params \<noteq> []
                   then out @ getJsDocParam
                          (getJsDocOperation_object ''options.params''
                             (list_ex param_required
                               (filter (\<lambda>p. param_type p = ''path'') (op_parameters operation)))
                             ''path params'') @ params
                   else out);
            out = out @ ''\<newline>   * @returns Promise <'' @ getTsInterfaceName (op_type operation) @ ''>''
        in out @ ''\<newline>   */''))\<close>

definition getTsOperation :: \<open>(string \<Rightarrow> string) \<Rightarrow> IOperation \<Rightarrow> string \<Rightarrow> string\<close> where
  \<open>getTsOperation lower operation url =
     (let out = getJsDocOperation operation;
          required = list_ex param_required (op_parameters operation);
          out = out @ ''\<newline>  async '' @ unTitleCase lower (op_nickname operation)
                    @ ''(options'' @ (if required then '''' else ''?'') @ '': ''
                    @ getTsOperationOptionsInterfaceName operation
                    @ ''): Promise<'' @ getTsInterfaceName (op_type operation) @ ''> {'';
          out = out @ ''\<newline>    return this.requestJson({ method: '' @ quoted (op_method operation)
                    @ '', path: '' @ quoted url @ '', ...options });''
      in out @ ''\<newline>  }'')\<close>

definition getTsApi ::
  \<open>(string \<Rightarrow> string) \<Rightarrow> string \<Rightarrow> IApi \<Rightarrow> IGenerateApisOptions \<Rightarrow> string\<close> where
  \<open>getTsApi lower className api options =
     (let out = ''import { Api'' @ (if opt_splitInterfaces options then '''' else '', IOperationOptions'')
                  @ '' } from "./Api";'';
          out = (if opt_splitInterfaces options
                 then (let interfaces =
                             uniq (concat (map (\<lambda>operation.
                                      [getTsOperationOptionsInterfaceName operation,
                                       getTsInterfaceName (op_type operation)])
                                    (concat (map ao_operations (api_apis api)))))
                       in out @ join ''\<newline>''
                            (map (\<lambda>name. ''import { '' @ name @ '' } from "./interfaces/'' @ name @ ''";'')
                              (filter (\<lambda>name. name \<noteq> ''unknown'') interfaces)))
                 else (let out = foldl (\<lambda>out model. out @ ''\<newline>\<newline>'' @ getTsInterface model options)
                                   out (map snd (api_models api))
                       in foldl (\<lambda>out group.
                                   foldl (\<lambda>out operation.
                                            out @ ''\<newline>\<newline>''
                                              @ getTsOperationOptionsInterface operation options)
                                     out (ao_operations group))
                            out (api_apis api)));
          out = out @ ''\<newline>'';
          out = (if api_description api \<noteq> [] then out @ ''\<newline>// '' @ api_description api else out);
          out = out @ ''\<newline>export class '' @ className @ '' extends Api {'';
          out = out @ ''\<newline>  /**'';
          out = out @ ''\<newline>   * Create instance'';
          out = out @ ''\<newline>   * @constructor'';
          out = out @ ''\<newline>   * @param {string} token - OAuth token'';
          out = out @ ''\<newline>   */'';
          out = out @ ''\<newline>  constructor(token: string) {'';
          out = out @ ''\<newline>    super({ url: '' @ quoted (api_basePath api) @ '', token });'';
          out = out @ ''\<newline>  }'';
          out = foldl (\<lambda>out group.
                         foldl (\<lambda>out operation.
                                  (let out = out @ ''\<newline>''
                                   in out @ ''\<newline>'' @ getTsOperation lower operation (ao_path group)))
                           out (ao_operations group))
                  out (api_apis api)
      in out @ ''\<newline>}\<newline>'')\<close>


section \<open>Renderers (generator without documentation blocks)\<close>

text \<open>
  The second generator module defines \<^verbatim>\<open>toTitleCase\<close>, \<^verbatim>\<open>unTitleCase\<close>,
  \<^verbatim>\<open>getApiName\<close>, \<^verbatim>\<open>getTsInterfaceName\<close>, \<^verbatim>\<open>mapType\<close>,
  \<^verbatim>\<open>getTsOperationOptionsInterfaceName\<close> and \<^verbatim>\<open>uniq\<close> with the same text as the
  first one, so the definitions above stand for both. Its other functions follow, with the
  suffix \<open>2\<close>; \<^verbatim>\<open>getTsType\<close> is its name for \<^verbatim>\<open>getTsPropertyType\<close>.
\<close>

function getTsType :: \<open>IModelProperty \<Rightarrow> string\<close> where
  \<open>getTsType property =
     (if prop_type property = Some ''array'' \<and> prop_items property \<noteq> None
      then getTsType (the (prop_items property)) @ ''[]''
      else if truthy_str (prop_ref property)
      then getTsInterfaceName (the (prop_ref property))
      else mapType (prop_type property))\<close>
  by pat_completeness auto
termination
proof (relation \<open>measure size\<close>)
  show \<open>wf (measure (size :: IModelProperty \<Rightarrow> nat))\<close>
    by simp
next
  fix property :: IModelProperty
  assume \<open>prop_type property = Some ''array'' \<and> prop_items property \<noteq> None\<close>
  then show \<open>(the (prop_items property), property) \<in> measure size\<close>
    by (cases property) auto
qed

definition getTsInterface2_field :: \<open>IModel \<Rightarrow> string \<Rightarrow> string \<times> IModelProperty \<Rightarrow> string\<close> where
  \<open>getTsInterface2_field model out entry =
     (case entry of (name, property) \<Rightarrow>
       (let out = out @ ''\<newline>'';
            out = (if truthy_str (prop_description property)
                   then out @ ''  // '' @ the (prop_description property) @ ''\<newline>'' else out);
            type = getTsType property;
            required = (if name \<in> set (model_required model) then '''' else ''?'')
        in out @ ''  '' @ name @ required @ '': '' @ type @ '';\<newline>''))\<close>

definition getTsInterface2 :: \<open>IModel \<Rightarrow> IGenerateApisOptions \<Rightarrow> string\<close> where
  \<open>getTsInterface2 model options =
     (let out = getTsInterface_imports model options;
          out = out @ ''export interface '' @ getTsInterfaceName (model_id model) @ '' {'';
          out = foldl (getTsInterface2_field model) out (model_properties model)
      in out @ ''}\<newline>'')\<close>

text \<open>The loop of the second \<^verbatim>\<open>getTsOperationOptionsInterface\<close> carries the three group
  texts and the two flags \<^verbatim>\<open>bodyRequired\<close> and \<^verbatim>\<open>queryRequired\<close>; it keeps no flag
  for the path group.\<close>

definition getTsOperationOptionsInterface2_groups ::
  \<open>string \<times> string \<times> string \<times> bool \<times> bool \<Rightarrow> IParameter
     \<Rightarrow> string \<times> string \<times> string \<times> bool \<times> bool\<close> where
  \<open>getTsOperationOptionsInterface2_groups acc param =
     (case acc of (body, query, path, bodyRequired, queryRequired) \<Rightarrow>
       (let (body, bodyRequired) =
              (if param_paramType param = Some ''body''
               then (let body = body @ ''\<newline>'';
                         body = (if param_description param \<noteq> []
                                 then body @ ''    // '' @ param_description param @ ''\<newline>''
                                 else body);
                         required = (if param_required param then '''' else ''?'');
                         type = getTsInterfaceName (param_type param);
                         body = body @ ''    '' @ param_name param @ required @ '': '' @ type @ '';\<newline>''
                     in (body, (if param_required param then True else bodyRequired)))
               else (body, bodyRequired));
            (query, queryRequired) =
              (if param_paramType param = Some ''query''
               then (let query = query @ ''\<newline>'';
                         query = (if param_description param \<noteq> []
                                  then query @ ''    // '' @ param_description param @ ''\<newline>''
                                  else query);
                         required = (if param_required param then '''' else ''?'');
                         type = (case param_enum param of
                                   Some e \<Rightarrow> join '' | '' (map quoted e)
                                 | None \<Rightarrow> mapType (Some (param_type param)));
                         query = query @ ''    '' @ param_name param @ required @ '': '' @ type @ '';\<newline>''
                     in (query, (if param_required param then True else queryRequired)))
               else (query, queryRequired));
            path =
              (if param_paramType param = Some ''path''
               then (let path = path @ ''\<newline>'';
                         path = (if param_description param \<noteq> []
                                 then path @ ''    // '' @ param_description param @ ''\<newline>''
                                 else path);
                         type = (case param_enum param of
                                   Some e \<Rightarrow> join '' | '' (map quoted e)
                                 | None \<Rightarrow> mapType (Some (param_type param)))
                     in path @ ''    '' @ param_name param @ '': '' @ type @ '';\<newline>'')
               else path)
        in (body, query, path, bodyRequired, queryRequired)))\<close>

text \<open>
  What one pass of that loop appends to the text of a group for a parameter of the
  group; the loop is related to these texts by \<open>getTsOperationOptionsInterface2_groups_fold\<close>
  below. The member of a path parameter carries no marker.
\<close>

definition getTsOperationOptionsInterface2_body :: \<open>IParameter \<Rightarrow> string\<close> where
  \<open>getTsOperationOptionsInterface2_body param =
     ''\<newline>''
     @ (if param_description param \<noteq> [] then ''    // '' @ param_description param @ ''\<newline>''
        else '''')
     @ ''    '' @ param_name param @ (if param_required param then '''' else ''?'') @ '': ''
     @ getTsInterfaceName (param_type param) @ '';\<newline>''\<close>

definition getTsOperationOptionsInterface2_query :: \<open>IParameter \<Rightarrow> string\<close> where
  \<open>getTsOperationOptionsInterface2_query param =
     ''\<newline>''
     @ (if param_description param \<noteq> [] then ''    // '' @ param_description param @ ''\<newline>''
        else '''')
     @ ''    '' @ param_name param @ (if param_required param then '''' else ''?'') @ '': ''
     @ (case param_enum param of
          Some e \<Rightarrow> join '' | '' (map quoted e)
        | None \<Rightarrow> mapType (Some (param_type param)))
     @ '';\<newline>''\<close>

definition getTsOperationOptionsInterface2_path :: \<open>IParameter \<Rightarrow> string\<close> where
  \<open>getTsOperationOptionsInterface2_path param =
     ''\<newline>''
     @ (if param_description param \<noteq> [] then ''    // '' @ param_description param @ ''\<newline>''
        else '''')
     @ ''    '' @ param_name param @ '': ''
     @ (case param_enum param of
          Some e \<Rightarrow> join '' | '' (map quoted e)
        | None \<Rightarrow> mapType (Some (param_type param)))
     @ '';\<newline>''\<close>

definition getTsOperationOptionsInterface2_imports :: \<open>IOperation \<Rightarrow> IGenerateApisOptions \<Rightarrow> string\<close> where
  \<open>getTsOperationOptionsInterface2_imports operation options =
     (let out = ''''
      in if opt_splitInterfaces options
         then (let out = out @ ''import { IOperationOptions } from "../Api";\<newline>'';
                   interfaces =
                     map (\<lambda>param. getTsInterfaceName (param_type param))
                       (filter (\<lambda>param. param_paramType param = Some ''body'')
                         (op_parameters operation));
                   out = out @ join '',''
                           (map (\<lambda>name. ''import { '' @ name @ '' } from "./'' @ name @ ''";\<newline>'')
                             (uniq interfaces))
               in if out \<noteq> [] then out @ ''\<newline>'' else out)
         else out)\<close>

definition getTsOperationOptionsInterface2 :: \<open>IOperation \<Rightarrow> IGenerateApisOptions \<Rightarrow> string\<close> where
  \<open>getTsOperationOptionsInterface2 operation options =
     (case foldl getTsOperationOptionsInterface2_groups ('''', '''', '''', False, False)
             (op_parameters operation) of
       (body, query, path, bodyRequired, queryRequired) \<Rightarrow>
       (let out = getTsOperationOptionsInterface2_imports operation options;
            out = out @ ''export interface '' @ getTsOperationOptionsInterfaceName operation
                      @ '' extends IOperationOptions {'';
            out = (if body \<noteq> []
                   then out @ ''\<newline>  body'' @ (if bodyRequired then '''' else ''?'') @ '': {''
                          @ body @ ''  };\<newline>''
                   else out);
            out = (if query \<noteq> []
                   then out @ ''\<newline>  query'' @ (if queryRequired then '''' else ''?'') @ '': {''
                          @ query @ ''  };\<newline>''
                   else out);
            out = (if path \<noteq> []
                   then out @ ''\<newline>  params: {'' @ path @ ''  };\<newline>''
                   else out)
        in out @ ''}\<newline>''))\<close>

definition getTsOperation2 :: \<open>(string \<Rightarrow> string) \<Rightarrow> IOperation \<Rightarrow> string \<Rightarrow> string\<close> where
  \<open>getTsOperation2 lower operation url =
     (let out = '''';
          out = (if op_summary operation \<noteq> []
                 then out @ ''  // '' @ op_summary operation @ ''\<newline>'' else out);
          out = out @ ''  async '' @ unTitleCase lower (op_nickname operation)
                    @ ''(options: '' @ getTsOperationOptionsInterfaceName operation
                    @ ''): Promise<'' @ getTsInterfaceName (op_type operation) @ ''> {\<newline>'';
          out = out @ ''    return this.requestJson({ method: '' @ quoted (op_method operation)
                    @ '', path: '' @ quoted url @ '', ...options });\<newline>''
      in out @ ''  }\<newline>'')\<close>

definition getTsApi2 ::
  \<open>(string \<Rightarrow> string) \<Rightarrow> string \<Rightarrow> IApi \<Rightarrow> IGenerateApisOptions \<Rightarrow> string\<close> where
  \<open>getTsApi2 lower className api options =
     (let out = ''import { Api'' @ (if opt_splitInterfaces options then '''' else '', IOperationOptions'')
                  @ '' } from "./Api";\<newline>'';
          out = (if opt_splitInterfaces options
                 then (let interfaces =
                             uniq (concat (map (\<lambda>operation.
                                      [getTsOperationOptionsInterfaceName operation,
                                       getTsInterfaceName (op_type operation)])
                                    (concat (map ao_operations (api_apis api)))))
                       in out @ join ''\<newline>''
                            (map (\<lambda>name. ''import { '' @ name @ '' } from "./interfaces/'' @ name @ ''";'')
                              (filter (\<lambda>name. name \<noteq> ''unknown'') interfaces)))
                 else (let out = foldl (\<lambda>out model. out @ ''\<newline>'' @ getTsInterface2 model options)
                                   out (map snd (api_models api))
                       in foldl (\<lambda>out group.
                                   foldl (\<lambda>out operation.
                                            out @ ''\<newline>''
                                              @ getTsOperationOptionsInterface2 operation options)
                                     out (ao_operations group))
                            out (api_apis api)));
          out = out @ ''\<newline>'';
          out = (if api_description api \<noteq> [] then out @ ''\<newline>// '' @ api_description api else out);
          out = out @ ''\<newline>export class '' @ className @ '' extends Api {'';
          out = out @ ''\<newline>  constructor(token: string) {'';
          out = out @ ''\<newline>    super({ url: '' @ quoted (api_basePath api) @ '', token });'';
          out = out @ ''\<newline>  }\<newline>'';
          out = foldl (\<lambda>out group.
                         foldl (\<lambda>out operation.
                                  (let out = out @ ''\<newline>''
                                   in out @ getTsOperation2 lower operation (ao_path group)))
                           out (ao_operations group))
                  out (api_apis api)
      in out @ ''}\<newline>'')\<close>


section \<open>JSON documents\<close>

text \<open>
  \<^verbatim>\<open>JSON.parse\<close>, \<^verbatim>\<open>res.json()\<close> and \<^verbatim>\<open>JSON.stringify(data, null, 2)\<close> belong to
  the platform, not to the generator. Their grammar and layout are written out here; what
  a number literal denotes is not, since the numbers of the platform are doubles. The
  functions take the numbers of the platform as a parameter, a record of
  \<^item> \<open>number_value\<close>, the number that \<^verbatim>\<open>JSON.parse\<close> gives for a number literal, or \<open>None\<close>
    where a description of the platform says nothing about the literal;
  \<^item> \<open>number_text\<close>, the text that \<^verbatim>\<open>JSON.stringify\<close> writes for a number (\<^verbatim>\<open>null\<close> for
    one that is not finite);
  \<^item> \<open>number_truthy\<close>, whether the number is truthy.

  Every theorem on the loader holds for all such records. \<open>integer_numbers\<close> is one of them:
  it describes the platform on the integer literals from \<open>- 2 ^ 53\<close> to \<open>2 ^ 53\<close>, whose
  values a double holds exactly, and nowhere else.

  A text parses to \<open>Unmodelled\<close> where this model is silent: a number literal without
  \<open>number_value\<close>, a \<^verbatim>\<open>\u\<close> escape of a surrogate, a key made of digits (which the
  platform would move to the front as an array index). Elsewhere an object keeps its keys
  in order of first appearance and a repeated key takes its last value.
\<close>

datatype 'n json =
  JNull
| JBool bool
| JNum 'n
| JStr string
| JArr \<open>'n json list\<close>
| JObj \<open>(string \<times> 'n json) list\<close>

record 'n numbers =
  number_value :: \<open>string \<Rightarrow> 'n option\<close>
  number_text :: \<open>'n \<Rightarrow> string\<close>
  number_truthy :: \<open>'n \<Rightarrow> bool\<close>

datatype error =
  FetchError
| SyntaxError
| Unmodelled
| ENOENT
| TypeError
| BadShape

definition backslash :: char where
  \<open>backslash = CHR 0x5C\<close>

definition dquote :: char where
  \<open>dquote = CHR 0x22\<close>

definition hex_chars :: string where
  \<open>hex_chars = ''0123456789abcdef''\<close>

function show_nat :: \<open>nat \<Rightarrow> string\<close> where
  \<open>show_nat n = (if n < 10 then [digit_chars ! n]
                 else show_nat (n div 10) @ [digit_chars ! (n mod 10)])\<close>
  by pat_completeness auto
termination
  by (relation \<open>measure id\<close>) auto

definition show_int :: \<open>int \<Rightarrow> string\<close> where
  \<open>show_int i = (if i < 0 then ''-'' @ show_nat (nat (- i)) else show_nat (nat i))\<close>

definition escape_char :: \<open>char \<Rightarrow> string\<close> where
  \<open>escape_char c =
     (if c = dquote then [backslash, dquote]
      else if c = backslash then [backslash, backslash]
      else if c = CHR 0x08 then [backslash, CHR ''b'']
      else if c = CHR 0x0C then [backslash, CHR ''f'']
      else if c = CHR 0x0A then [backslash, CHR ''n'']
      else if c = CHR 0x0D then [backslash, CHR ''r'']
      else if c = CHR 0x09 then [backslash, CHR ''t'']
      else if (of_char c :: nat) < 32
      then [backslash, CHR ''u'', CHR ''0'', CHR ''0'',
            hex_chars ! (of_char c div 16), hex_chars ! (of_char c mod 16)]
      else [c])\<close>

definition show_string :: \<open>string \<Rightarrow> string\<close> where
  \<open>show_string s = [dquote] @ concat (map escape_char s) @ [dquote]\<close>

fun stringify :: \<open>'n numbers \<Rightarrow> string \<Rightarrow> 'n json \<Rightarrow> string\<close> where
  \<open>stringify N ind JNull = ''null''\<close>
| \<open>stringify N ind (JBool b) = (if b then ''true'' else ''false'')\<close>
| \<open>stringify N ind (JNum n) = number_text N n\<close>
| \<open>stringify N ind (JStr s) = show_string s\<close>
| \<open>stringify N ind (JArr xs) =
     (if xs = [] then ''[]''
      else ''['' @ ''\<newline>''
           @ join ('','' @ ''\<newline>'') (map (\<lambda>x. ind @ ''  '' @ stringify N (ind @ ''  '') x) xs)
           @ ''\<newline>'' @ ind @ '']'')\<close>
| \<open>stringify N ind (JObj kvs) =
     (if kvs = [] then ''{}''
      else ''{'' @ ''\<newline>''
           @ join ('','' @ ''\<newline>'')
               (map (\<lambda>kv. ind @ ''  '' @ show_string (fst kv) @ '': ''
                            @ stringify N (ind @ ''  '') (snd kv)) kvs)
           @ ''\<newline>'' @ ind @ ''}'')\<close>

definition JSON_stringify :: \<open>'n numbers \<Rightarrow> 'n json \<Rightarrow> string\<close> where
  \<open>JSON_stringify N data = stringify N '''' data\<close>

definition is_json_ws :: \<open>char \<Rightarrow> bool\<close> where
  \<open>is_json_ws c \<longleftrightarrow> c \<in> set [CHR '' '', CHR 0x09, CHR 0x0A, CHR 0x0D]\<close>

definition skip_ws :: \<open>string \<Rightarrow> string\<close> where
  \<open>skip_ws s = dropWhile is_json_ws s\<close>

definition is_digit :: \<open>char \<Rightarrow> bool\<close> where
  \<open>is_digit c \<longleftrightarrow> c \<in> set digit_chars\<close>

definition digit_val :: \<open>char \<Rightarrow> nat\<close> where
  \<open>digit_val c = of_char c - of_char CHR ''0''\<close>

definition hex_val :: \<open>char \<Rightarrow> int option\<close> where
  \<open>hex_val c =
     map_of (zip (''0123456789abcdef'' @ ''ABCDEF'')
               ([0, 1, 2, 3, 4, 5, 6, 7, 8, 9, 10, 11, 12, 13, 14, 15] @ [10, 11, 12, 13, 14, 15])) c\<close>

definition read_digits :: \<open>string \<Rightarrow> int\<close> where
  \<open>read_digits ds = foldl (\<lambda>n d. 10 * n + int (digit_val d)) 0 ds\<close>

text \<open>The UTF-8 bytes of a character of the basic plane that is not a surrogate.\<close>

definition utf8 :: \<open>int \<Rightarrow> string option\<close> where
  \<open>utf8 cp =
     (if cp < 128 then Some [char_of cp]
      else if cp < 2048 then Some [char_of (192 + cp div 64), char_of (128 + cp mod 64)]
      else if 55296 \<le> cp \<and> cp < 57344 then None
      else Some [char_of (224 + cp div 4096), char_of (128 + (cp div 64) mod 64),
                 char_of (128 + cp mod 64)])\<close>

text \<open>The characters of a string literal, after its opening quote.\<close>

fun parse_chars :: \<open>string \<Rightarrow> string \<Rightarrow> error + (string \<times> string)\<close> where
  \<open>parse_chars acc [] = Inl SyntaxError\<close>
| \<open>parse_chars acc (c # cs) =
     (if c = dquote then Inr (acc, cs)
      else if c = backslash then
        (case cs of
           [] \<Rightarrow> Inl SyntaxError
         | e # rest \<Rightarrow>
             (if e = dquote \<or> e = backslash \<or> e = CHR ''/'' then parse_chars (acc @ [e]) rest
              else if e = CHR ''b'' then parse_chars (acc @ [CHR 0x08]) rest
              else if e = CHR ''f'' then parse_chars (acc @ [CHR 0x0C]) rest
              else if e = CHR ''n'' then parse_chars (acc @ [CHR 0x0A]) rest
              else if e = CHR ''r'' then parse_chars (acc @ [CHR 0x0D]) rest
              else if e = CHR ''t'' then parse_chars (acc @ [CHR 0x09]) rest
              else if e = CHR ''u'' then
                (case rest of
                   h1 # h2 # h3 # h4 # rest' \<Rightarrow>
                     (case (hex_val h1, hex_val h2, hex_val h3, hex_val h4) of
                        (Some a, Some b, Some c, Some d) \<Rightarrow>
                          (case utf8 (4096 * a + 256 * b + 16 * c + d) of
                             Some bytes \<Rightarrow> parse_chars (acc @ bytes) rest'
                           | None \<Rightarrow> Inl Unmodelled)
                      | _ \<Rightarrow> Inl SyntaxError)
                 | _ \<Rightarrow> Inl SyntaxError)
              else Inl SyntaxError))
      else if (of_char c :: nat) < 32 then Inl SyntaxError
      else parse_chars (acc @ [c]) cs)\<close>

text \<open>
  A number literal at the start of \<open>s\<close>, which starts with a digit or with the minus
  sign: an integer part without a leading zero, then maybe a point with digits, then maybe
  an exponent. The result is the literal and the text after it.
\<close>

definition number_literal :: \<open>string \<Rightarrow> (string \<times> string) option\<close> where
  \<open>number_literal s =
     (let s1 = (if s \<noteq> [] \<and> hd s = CHR ''-'' then tl s else s);
          ds = takeWhile is_digit s1;
          s2 = dropWhile is_digit s1;
          point = (s2 \<noteq> [] \<and> hd s2 = CHR ''.'');
          fs = (if point then takeWhile is_digit (tl s2) else []);
          s3 = (if point then dropWhile is_digit (tl s2) else s2);
          expo = (s3 \<noteq> [] \<and> hd s3 \<in> set ''eE'');
          s4 = (if expo \<and> tl s3 \<noteq> [] \<and> hd (tl s3) \<in> set ''+-'' then tl (tl s3) else tl s3);
          es = (if expo then takeWhile is_digit s4 else []);
          rest = (if expo then dropWhile is_digit s4 else s3)
      in if ds = [] \<or> (hd ds = CHR ''0'' \<and> length ds > 1) \<or> (point \<and> fs = []) \<or> (expo \<and> es = [])
         then None
         else Some (take (length s - length rest) s, rest))\<close>

definition parse_number :: \<open>'n numbers \<Rightarrow> string \<Rightarrow> error + ('n json \<times> string)\<close> where
  \<open>parse_number N s =
     (case number_literal s of
        None \<Rightarrow> Inl SyntaxError
      | Some (literal, rest) \<Rightarrow>
          (case number_value N literal of
             None \<Rightarrow> Inl Unmodelled
           | Some n \<Rightarrow> Inr (JNum n, rest)))\<close>

text \<open>
  The value parser is a recursive descent with fuel: every call consumes a character, so
  the fuel \<open>Suc (length s)\<close> given by \<open>JSON_parse\<close> is never used up on a text of length
  \<open>length s\<close>; running out of fuel is reported as \<open>Unmodelled\<close>.
\<close>

fun parse_value :: \<open>'n numbers \<Rightarrow> nat \<Rightarrow> string \<Rightarrow> error + ('n json \<times> string)\<close>
  and parse_elements ::
    \<open>'n numbers \<Rightarrow> nat \<Rightarrow> 'n json list \<Rightarrow> string \<Rightarrow> error + ('n json \<times> string)\<close>
  and parse_members ::
    \<open>'n numbers \<Rightarrow> nat \<Rightarrow> (string \<times> 'n json) list \<Rightarrow> string \<Rightarrow> error + ('n json \<times> string)\<close>
where
  \<open>parse_value N 0 s = Inl Unmodelled\<close>
| \<open>parse_value N (Suc n) s =
     (case s of
        [] \<Rightarrow> Inl SyntaxError
      | c # cs \<Rightarrow>
          (if c = CHR ''{'' then
             (case skip_ws cs of
                [] \<Rightarrow> Inl SyntaxError
              | d # ds \<Rightarrow> if d = CHR ''}'' then Inr (JObj [], ds) else parse_members N n [] (d # ds))
           else if c = CHR ''['' then
             (case skip_ws cs of
                [] \<Rightarrow> Inl SyntaxError
              | d # ds \<Rightarrow> if d = CHR '']'' then Inr (JArr [], ds) else parse_elements N n [] (d # ds))
           else if c = dquote then
             (case parse_chars [] cs of
                Inl e \<Rightarrow> Inl e
              | Inr (str, rest) \<Rightarrow> Inr (JStr str, rest))
           else if take 4 s = ''null'' then Inr (JNull, drop 4 s)
           else if take 4 s = ''true'' then Inr (JBool True, drop 4 s)
           else if take 5 s = ''false'' then Inr (JBool False, drop 5 s)
           else if c = CHR ''-'' \<or> is_digit c then parse_number N s
           else Inl SyntaxError))\<close>
| \<open>parse_elements N 0 acc s = Inl Unmodelled\<close>
| \<open>parse_elements N (Suc n) acc s =
     (case parse_value N n s of
        Inl e \<Rightarrow> Inl e
      | Inr (v, rest) \<Rightarrow>
          (case skip_ws rest of
             [] \<Rightarrow> Inl SyntaxError
           | c # cs \<Rightarrow>
               (if c = CHR '','' then parse_elements N n (acc @ [v]) (skip_ws cs)
                else if c = CHR '']'' then Inr (JArr (acc @ [v]), cs)
                else Inl SyntaxError)))\<close>
| \<open>parse_members N 0 acc s = Inl Unmodelled\<close>
| \<open>parse_members N (Suc n) acc s =
     (case s of
        [] \<Rightarrow> Inl SyntaxError
      | q # s1 \<Rightarrow>
          (if q \<noteq> dquote then Inl SyntaxError
           else
             (case parse_chars [] s1 of
                Inl e \<Rightarrow> Inl e
              | Inr (key, s2) \<Rightarrow>
                  if key \<noteq> [] \<and> list_all is_digit key then Inl Unmodelled
                  else
                  (case skip_ws s2 of
                     [] \<Rightarrow> Inl SyntaxError
                   | colon # s3 \<Rightarrow>
                       (if colon \<noteq> CHR '':'' then Inl SyntaxError
                        else
                          (case parse_value N n (skip_ws s3) of
                             Inl e \<Rightarrow> Inl e
                           | Inr (v, rest) \<Rightarrow>
                               (case skip_ws rest of
                                  [] \<Rightarrow> Inl SyntaxError
                                | c # cs \<Rightarrow>
                                    (if c = CHR '','' then
                                       parse_members N n (AList.update key v acc) (skip_ws cs)
                                     else if c = CHR ''}'' then
                                       Inr (JObj (AList.update key v acc), cs)
                                     else Inl SyntaxError))))))))\<close>

definition JSON_parse :: \<open>'n numbers \<Rightarrow> string \<Rightarrow> error + 'n json\<close> where
  \<open>JSON_parse N s =
     (case parse_value N (Suc (length s)) (skip_ws s) of
        Inl e \<Rightarrow> Inl e
      | Inr (v, rest) \<Rightarrow> if skip_ws rest = [] then Inr v else Inl SyntaxError)\<close>

text \<open>The platform on the integers that a double holds exactly. The literal \<^verbatim>\<open>-0\<close>,
  whose value is the negative zero of the doubles, is left out.\<close>

definition integer_numbers :: \<open>int numbers\<close> where
  \<open>integer_numbers =
     \<lparr>number_value =
        (\<lambda>literal.
           (let neg = (literal \<noteq> [] \<and> hd literal = CHR ''-'');
                ds = (if neg then tl literal else literal)
            in if ds \<noteq> [] \<and> list_all is_digit ds \<and> read_digits ds \<le> 9007199254740992
                  \<and> \<not> (neg \<and> read_digits ds = 0)
               then Some (if neg then - read_digits ds else read_digits ds)
               else None)),
      number_text = show_int,
      number_truthy = (\<lambda>i. i \<noteq> 0)\<rparr>\<close>



section \<open>The file system, the network and the loader\<close>

text \<open>
  The world a run acts on: the files by path, the directories made, and the list of the
  URLs requested from the network so far. The network itself is a function from a URL to
  the body of the response, \<open>None\<close> where the request fails. Failures of the file system
  other than a missing file are not modelled, and the console is left out.
\<close>

record world =
  files :: \<open>string \<Rightarrow> string option\<close>
  dirs :: \<open>string set\<close>
  requests :: \<open>string list\<close>

definition mkdir :: \<open>string \<Rightarrow> world \<Rightarrow> world\<close> where
  \<open>mkdir p w = w\<lparr>dirs := insert p (dirs w)\<rparr>\<close>

definition writeFile :: \<open>string \<Rightarrow> string \<Rightarrow> world \<Rightarrow> world\<close> where
  \<open>writeFile p content w = w\<lparr>files := (files w)(p \<mapsto> content)\<rparr>\<close>

definition copyFile :: \<open>string \<Rightarrow> string \<Rightarrow> world \<Rightarrow> (error + unit) \<times> world\<close> where
  \<open>copyFile src dst w =
     (case files w src of
        None \<Rightarrow> (Inl ENOENT, w)
      | Some content \<Rightarrow> (Inr (), writeFile dst content w))\<close>

definition fetch :: \<open>(string \<Rightarrow> string option) \<Rightarrow> string \<Rightarrow> world \<Rightarrow> (error + string) \<times> world\<close> where
  \<open>fetch net path w =
     (let w = w\<lparr>requests := requests w @ [path]\<rparr>
      in case net path of None \<Rightarrow> (Inl FetchError, w) | Some body \<Rightarrow> (Inr body, w))\<close>

text \<open>What the variable \<^verbatim>\<open>data\<close> of \<^verbatim>\<open>getJson\<close> can hold: nothing yet (\<open>None\<close>), a
  decoded document, or the raw content of the cache file.\<close>

datatype 'n js_value = Json \<open>'n json\<close> | Buffer string

fun truthy :: \<open>'n numbers \<Rightarrow> 'n js_value option \<Rightarrow> bool\<close> where
  \<open>truthy N None = False\<close>
| \<open>truthy N (Some (Buffer b)) = True\<close>
| \<open>truthy N (Some (Json JNull)) = False\<close>
| \<open>truthy N (Some (Json (JBool b))) = b\<close>
| \<open>truthy N (Some (Json (JNum n))) = number_truthy N n\<close>
| \<open>truthy N (Some (Json (JStr s))) = (s \<noteq> [])\<close>
| \<open>truthy N (Some (Json (JArr xs))) = True\<close>
| \<open>truthy N (Some (Json (JObj kvs))) = True\<close>

definition cache_filename :: \<open>string \<Rightarrow> string\<close> where
  \<open>cache_filename path = ''./cache'' @ ''/'' @ filter (\<lambda>c. c \<notin> set '':/.-?={}'') path\<close>

text \<open>The part of both \<^verbatim>\<open>getJson\<close> after the cache has been looked at.\<close>

definition getJson_request ::
  \<open>'n numbers \<Rightarrow> (string \<Rightarrow> string option) \<Rightarrow> string \<Rightarrow> 'n js_value option \<Rightarrow> world
     \<Rightarrow> (error + 'n js_value) \<times> world\<close> where
  \<open>getJson_request N net path data w =
     (if \<not> truthy N data
      then (case fetch net path w of
              (Inl e, w) \<Rightarrow> (Inl e, w)
            | (Inr body, w) \<Rightarrow>
                (case JSON_parse N body of
                   Inl e \<Rightarrow> (Inl e, w)
                 | Inr data \<Rightarrow>
                     (Inr (Json data), writeFile (cache_filename path) (JSON_stringify N data) w)))
      else (Inr (the data), w))\<close>

definition getJson ::
  \<open>'n numbers \<Rightarrow> (string \<Rightarrow> string option) \<Rightarrow> string \<Rightarrow> world \<Rightarrow> (error + 'n js_value) \<times> world\<close> where
  \<open>getJson N net path w =
     (let cachePath = ''./cache'';
          filename = cache_filename path;
          w = mkdir cachePath w;
          exists = (files w filename \<noteq> None)
      in if exists
         then (case JSON_parse N (the (files w filename)) of
                 Inl e \<Rightarrow> (Inl e, w)
               | Inr data \<Rightarrow> getJson_request N net path (Some (Json data)) w)
         else getJson_request N net path None w)\<close>

text \<open>In the second module the cache is read inside \<^verbatim>\<open>try\<close>: when the file is there
  and \<^verbatim>\<open>JSON.parse\<close> throws, \<^verbatim>\<open>data\<close> is left holding the raw content read.\<close>

definition getJson2 ::
  \<open>'n numbers \<Rightarrow> (string \<Rightarrow> string option) \<Rightarrow> string \<Rightarrow> world \<Rightarrow> (error + 'n js_value) \<times> world\<close> where
  \<open>getJson2 N net path w =
     (let cachePath = ''./cache'';
          filename = cache_filename path;
          w = mkdir cachePath w
      in case files w filename of
           None \<Rightarrow> getJson_request N net path None w
         | Some content \<Rightarrow>
             (case JSON_parse N content of
                Inl SyntaxError \<Rightarrow> getJson_request N net path (Some (Buffer content)) w
              | Inl e \<Rightarrow> (Inl e, w)
              | Inr data \<Rightarrow> getJson_request N net path (Some (Json data)) w))\<close>


section \<open>Documents as typed records\<close>

text \<open>
  \<^verbatim>\<open>getJson(...) as ISchemaApi\<close> and \<^verbatim>\<open>as IApi\<close> are unchecked casts: the generator
  relies on the documents having the declared shape. The casts are modelled by decoders
  that return \<open>None\<close> on a document of another shape, which \<open>generateApis\<close> reports as
  \<open>BadShape\<close>; such documents are outside the model.
\<close>

fun field :: \<open>string \<Rightarrow> 'n json \<Rightarrow> 'n json option\<close> where
  \<open>field k (JObj kvs) = map_of kvs k\<close>
| \<open>field k j = None\<close>

definition get_string :: \<open>string \<Rightarrow> 'n json \<Rightarrow> string option\<close> where
  \<open>get_string k j = (case field k j of Some (JStr s) \<Rightarrow> Some s | _ \<Rightarrow> None)\<close>

definition get_opt_string :: \<open>string \<Rightarrow> 'n json \<Rightarrow> string option option\<close> where
  \<open>get_opt_string k j =
     (case field k j of None \<Rightarrow> Some None | Some (JStr s) \<Rightarrow> Some (Some s) | _ \<Rightarrow> None)\<close>

definition get_bool :: \<open>string \<Rightarrow> 'n json \<Rightarrow> bool option\<close> where
  \<open>get_bool k j = (case field k j of Some (JBool b) \<Rightarrow> Some b | _ \<Rightarrow> None)\<close>

definition get_list :: \<open>('n json \<Rightarrow> 'a option) \<Rightarrow> string \<Rightarrow> 'n json \<Rightarrow> 'a list option\<close> where
  \<open>get_list dec k j = (case field k j of Some (JArr xs) \<Rightarrow> those (map dec xs) | _ \<Rightarrow> None)\<close>

definition get_dict :: \<open>('n json \<Rightarrow> 'a option) \<Rightarrow> string \<Rightarrow> 'n json \<Rightarrow> (string \<times> 'a) list option\<close> where
  \<open>get_dict dec k j =
     (case field k j of
        Some (JObj kvs) \<Rightarrow> those (map (\<lambda>kv. map_option (Pair (fst kv)) (dec (snd kv))) kvs)
      | _ \<Rightarrow> None)\<close>

definition as_string :: \<open>'n json \<Rightarrow> string option\<close> where
  \<open>as_string j = (case j of JStr s \<Rightarrow> Some s | _ \<Rightarrow> None)\<close>

text \<open>A property nests through \<^verbatim>\<open>items\<close>; the decoder carries the nesting depth it may
  still descend, and \<open>asIApi\<close> gives it the size of the document.\<close>

fun asIModelProperty :: \<open>nat \<Rightarrow> 'n json \<Rightarrow> IModelProperty option\<close> where
  \<open>asIModelProperty 0 j = None\<close>
| \<open>asIModelProperty (Suc n) j =
     (case j of
        JObj kvs \<Rightarrow>
          (case (get_opt_string ''type'' j, get_opt_string ''description'' j,
                 get_opt_string ''format'' j, get_opt_string ''$ref'' j) of
             (Some ty, Some de, Some fo, Some re) \<Rightarrow>
               (case field ''items'' j of
                  None \<Rightarrow> Some (IModelProperty ty de None fo re)
                | Some it \<Rightarrow>
                    (case asIModelProperty n it of
                       None \<Rightarrow> None
                     | Some items \<Rightarrow> Some (IModelProperty ty de (Some items) fo re)))
           | _ \<Rightarrow> None)
      | _ \<Rightarrow> None)\<close>

definition asIModel :: \<open>nat \<Rightarrow> 'n json \<Rightarrow> IModel option\<close> where
  \<open>asIModel n j =
     (case (get_string ''id'' j, get_list as_string ''required'' j,
            get_dict (asIModelProperty n) ''properties'' j) of
        (Some i, Some r, Some p) \<Rightarrow>
          Some \<lparr>model_id = i, model_required = r, model_properties = p\<rparr>
      | _ \<Rightarrow> None)\<close>

definition asIParameter :: \<open>'n json \<Rightarrow> IParameter option\<close> where
  \<open>asIParameter j =
     (case (get_string ''description'' j,
            (case field ''enum'' j of
               None \<Rightarrow> Some None
             | Some e \<Rightarrow> map_option Some (get_list as_string ''enum'' j)),
            get_opt_string ''format'' j, get_string ''name'' j,
            get_opt_string ''paramType'' j, get_bool ''required'' j, get_string ''type'' j) of
        (Some de, Some en, Some fo, Some na, Some pt, Some rq, Some ty) \<Rightarrow>
          Some \<lparr>param_description = de, param_enum = en, param_format = fo, param_name = na,
                param_paramType = pt, param_required = rq, param_type = ty\<rparr>
      | _ \<Rightarrow> None)\<close>

definition asIOperation :: \<open>'n json \<Rightarrow> IOperation option\<close> where
  \<open>asIOperation j =
     (case (get_string ''method'' j, get_string ''nickname'' j,
            get_list asIParameter ''parameters'' j, get_string ''summary'' j,
            get_string ''type'' j) of
        (Some me, Some ni, Some pa, Some su, Some ty) \<Rightarrow>
          Some \<lparr>op_method = me, op_nickname = ni, op_parameters = pa, op_summary = su,
                op_type = ty\<rparr>
      | _ \<Rightarrow> None)\<close>

definition asIApiOperations :: \<open>'n json \<Rightarrow> IApiOperations option\<close> where
  \<open>asIApiOperations j =
     (case (get_list asIOperation ''operations'' j, get_string ''path'' j) of
        (Some ops, Some p) \<Rightarrow> Some \<lparr>ao_operations = ops, ao_path = p\<rparr>
      | _ \<Rightarrow> None)\<close>

definition asIApi :: \<open>'n js_value \<Rightarrow> IApi option\<close> where
  \<open>asIApi v =
     (case v of
        Buffer b \<Rightarrow> None
      | Json j \<Rightarrow>
          (case (get_string ''apiVersion'' j, get_list asIApiOperations ''apis'' j,
                 get_string ''basePath'' j, get_string ''description'' j,
                 get_dict (asIModel (size j)) ''models'' j, get_string ''resourcePath'' j) of
             (Some av, Some ap, Some bp, Some de, Some mo, Some rp) \<Rightarrow>
               Some \<lparr>api_apiVersion = av, api_apis = ap, api_basePath = bp,
                     api_description = de, api_models = mo, api_resourcePath = rp\<rparr>
           | _ \<Rightarrow> None))\<close>

definition asISchemaApiInfo :: \<open>'n json \<Rightarrow> ISchemaApiInfo option\<close> where
  \<open>asISchemaApiInfo j =
     (case (get_string ''description'' j, get_string ''path'' j) of
        (Some d, Some p) \<Rightarrow> Some \<lparr>info_description = d, info_path = p\<rparr>
      | _ \<Rightarrow> None)\<close>

definition asISchemaApi :: \<open>'n js_value \<Rightarrow> ISchemaApi option\<close> where
  \<open>asISchemaApi v =
     (case v of
        Buffer b \<Rightarrow> None
      | Json j \<Rightarrow>
          (case (get_list asISchemaApiInfo ''apis'' j, get_string ''basePath'' j) of
             (Some a, Some b) \<Rightarrow> Some \<lparr>schema_apis = a, schema_basePath = b\<rparr>
           | _ \<Rightarrow> None))\<close>


section \<open>The run\<close>

text \<open>\<^verbatim>\<open>items.reduce(f)\<close> without an initial value throws a \<^verbatim>\<open>TypeError\<close> on the empty
  array and starts from the first element otherwise.\<close>

fun reduce :: \<open>('a \<Rightarrow> 'a \<Rightarrow> 'a) \<Rightarrow> 'a list \<Rightarrow> error + 'a\<close> where
  \<open>reduce f [] = Inl TypeError\<close>
| \<open>reduce f (x # xs) = Inr (foldl f x xs)\<close>

text \<open>The callback that \<^verbatim>\<open>generateApis\<close> hands to \<^verbatim>\<open>reduce\<close>.\<close>

definition generateApis_merge :: \<open>IApi \<Rightarrow> IApi \<Rightarrow> IApi\<close> where
  \<open>generateApis_merge acc api =
     acc\<lparr>api_apis := api_apis acc @ api_apis api,
         api_models := spread (api_models acc) (api_models api)\<rparr>\<close>

text \<open>
  \<^verbatim>\<open>generateApis\<close> has the same text in both modules and differs only in the functions
  of its module that it calls, so it is written once over these four: the loader \<open>gj\<close>, the
  class renderer \<open>ta\<close>, the model renderer \<open>ti\<close> and the options renderer \<open>to\<close>.
  \<open>dirname\<close> is the directory of the module (\<^verbatim>\<open>__dirname\<close>), \<open>lower\<close> and \<open>N\<close> are the
  platform's lowering of strings and its numbers.
\<close>

type_synonym 'n loader =
  \<open>(string \<Rightarrow> string option) \<Rightarrow> string \<Rightarrow> world \<Rightarrow> (error + 'n js_value) \<times> world\<close>

definition generateApis_split ::
  \<open>(IModel \<Rightarrow> IGenerateApisOptions \<Rightarrow> string) \<Rightarrow> (IOperation \<Rightarrow> IGenerateApisOptions \<Rightarrow> string)
     \<Rightarrow> IGenerateApisOptions \<Rightarrow> IApi \<Rightarrow> world \<Rightarrow> world\<close> where
  \<open>generateApis_split ti to options api w =
     (let w = foldl (\<lambda>w model.
                       writeFile (opt_dest options @ ''/interfaces/''
                                    @ getTsInterfaceName (model_id model) @ ''.ts'')
                         (ti model options) w)
                w (map snd (api_models api))
      in foldl (\<lambda>w group.
                  foldl (\<lambda>w operation.
                           writeFile (opt_dest options @ ''/interfaces/''
                                        @ getTsOperationOptionsInterfaceName operation @ ''.ts'')
                             (to operation options) w)
                    w (ao_operations group))
           w (api_apis api))\<close>

fun generateApis_loop ::
  \<open>(string \<Rightarrow> string) \<Rightarrow> 'n loader \<Rightarrow> (string \<Rightarrow> IApi \<Rightarrow> IGenerateApisOptions \<Rightarrow> string)
     \<Rightarrow> (IModel \<Rightarrow> IGenerateApisOptions \<Rightarrow> string) \<Rightarrow> (IOperation \<Rightarrow> IGenerateApisOptions \<Rightarrow> string)
     \<Rightarrow> (string \<Rightarrow> string option) \<Rightarrow> IGenerateApisOptions \<Rightarrow> ISchemaApi
     \<Rightarrow> ISchemaApiInfo list \<Rightarrow> IApi list \<Rightarrow> world \<Rightarrow> (error + IApi list) \<times> world\<close> where
  \<open>generateApis_loop lower gj ta ti to net options schemaApi [] apis w = (Inr apis, w)\<close>
| \<open>generateApis_loop lower gj ta ti to net options schemaApi (schemaApiInfo # rest) apis w =
     (case gj net (schema_basePath schemaApi @ info_path schemaApiInfo) w of
        (Inl e, w) \<Rightarrow> (Inl e, w)
      | (Inr v, w) \<Rightarrow>
          (case asIApi v of
             None \<Rightarrow> (Inl BadShape, w)
           | Some api \<Rightarrow>
               (let apis = apis @ [api];
                    w = (if opt_groupClass options = []
                         then writeFile (opt_dest options @ ''/'' @ getApiName lower api @ ''.ts'')
                                (ta (getApiName lower api) api options) w
                         else w);
                    w = (if opt_splitInterfaces options
                         then generateApis_split ti to options api w else w)
                in generateApis_loop lower gj ta ti to net options schemaApi rest apis w)))\<close>

definition generateApis_with ::
  \<open>(string \<Rightarrow> string) \<Rightarrow> 'n loader \<Rightarrow> (string \<Rightarrow> IApi \<Rightarrow> IGenerateApisOptions \<Rightarrow> string)
     \<Rightarrow> (IModel \<Rightarrow> IGenerateApisOptions \<Rightarrow> string) \<Rightarrow> (IOperation \<Rightarrow> IGenerateApisOptions \<Rightarrow> string)
     \<Rightarrow> (string \<Rightarrow> string option) \<Rightarrow> string \<Rightarrow> IGenerateApisOptions
     \<Rightarrow> world \<Rightarrow> (error + unit) \<times> world\<close> where
  \<open>generateApis_with lower gj ta ti to net dirname options w =
     (let w = mkdir (opt_dest options) w;
          w = (if opt_splitInterfaces options
               then mkdir (opt_dest options @ ''/interfaces'') w else w)
      in case copyFile (dirname @ ''/../template/Api.ts'') (opt_dest options @ ''/Api.ts'') w of
           (Inl e, w) \<Rightarrow> (Inl e, w)
         | (Inr u, w) \<Rightarrow>
             (case gj net (opt_url options) w of
                (Inl e, w) \<Rightarrow> (Inl e, w)
              | (Inr v, w) \<Rightarrow>
                  (case asISchemaApi v of
                     None \<Rightarrow> (Inl BadShape, w)
                   | Some schemaApi \<Rightarrow>
                       (case generateApis_loop lower gj ta ti to net options schemaApi
                               (schema_apis schemaApi) [] w of
                          (Inl e, w) \<Rightarrow> (Inl e, w)
                        | (Inr apis, w) \<Rightarrow>
                            (if opt_groupClass options \<noteq> []
                             then (case reduce generateApis_merge apis of
                                     Inl e \<Rightarrow> (Inl e, w)
                                   | Inr api \<Rightarrow>
                                       (Inr (),
                                        writeFile (opt_dest options @ ''/''
                                                     @ opt_groupClass options @ ''.ts'')
                                          (ta (opt_groupClass options) api options) w))
                             else (Inr (), w))))))\<close>

definition generateApis ::
  \<open>(string \<Rightarrow> string) \<Rightarrow> 'n numbers \<Rightarrow> (string \<Rightarrow> string option) \<Rightarrow> string
     \<Rightarrow> IGenerateApisOptions \<Rightarrow> world \<Rightarrow> (error + unit) \<times> world\<close> where
  \<open>generateApis lower N =
     generateApis_with lower (getJson N) (getTsApi lower) getTsInterface
       getTsOperationOptionsInterface\<close>

definition generateApis2 ::
  \<open>(string \<Rightarrow> string) \<Rightarrow> 'n numbers \<Rightarrow> (string \<Rightarrow> string option) \<Rightarrow> string
     \<Rightarrow> IGenerateApisOptions \<Rightarrow> world \<Rightarrow> (error + unit) \<times> world\<close> where
  \<open>generateApis2 lower N =
     generateApis_with lower (getJson2 N) (getTsApi2 lower) getTsInterface2
       getTsOperationOptionsInterface2\<close>


section \<open>Example inputs\<close>

text \<open>Concrete inputs on which the theorems below are evaluated.\<close>

text \<open>
  The platform's lowering on the strings made of characters below U+0100 and of the two
  letters below. Next to the letters A to Z it lowers the letters U+00C0 to U+00DE other
  than the sign U+00D7, each to the character 32 places on: such a letter is the byte C3
  and a byte from 80 to 9E other than 97, and the character 32 places on has the bit of
  32 set in the second byte. The letter U+10400, DESERET CAPITAL LETTER LONG I, lies
  beyond the basic plane and is lowered to U+10428. The letter U+2102, DOUBLE-STRUCK
  CAPITAL C, is an upper-case letter without a lower-case form and stays. On other
  strings \<open>example_lower\<close> describes no platform.
\<close>

definition deseret_capital_long_i :: string where
  \<open>deseret_capital_long_i = [CHR 0xF0, CHR 0x90, CHR 0x90, CHR 0x80]\<close>

definition deseret_small_long_i :: string where
  \<open>deseret_small_long_i = [CHR 0xF0, CHR 0x90, CHR 0x90, CHR 0xA8]\<close>

definition double_struck_capital_c :: string where
  \<open>double_struck_capital_c = [CHR 0xE2, CHR 0x84, CHR 0x82]\<close>

fun example_lower :: \<open>string \<Rightarrow> string\<close> where
  \<open>example_lower [] = []\<close>
| \<open>example_lower [c] = [toLowerCase_ascii c]\<close>
| \<open>example_lower (c # d # cs) =
     (if take 4 (c # d # cs) = deseret_capital_long_i
      then deseret_small_long_i @ example_lower (drop 2 cs)
      else if c = CHR 0xC3 \<and> digit7 d \<and> \<not> digit6 d \<and> \<not> digit5 d
              \<and> d \<noteq> CHR 0x97 \<and> d \<noteq> CHR 0x9F
      then c # Char (digit0 d) (digit1 d) (digit2 d) (digit3 d) (digit4 d) True
                 (digit6 d) (digit7 d)
             # example_lower cs
      else toLowerCase_ascii c # example_lower (d # cs))\<close>

definition example_url :: string where
  \<open>example_url = ''http://x/api''\<close>

definition example_world :: world where
  \<open>example_world =
     \<lparr>files = [''/app/src/../template/Api.ts'' \<mapsto> ''export class Api {}''],
      dirs = {}, requests = []\<rparr>\<close>

definition example_index :: string where
  \<open>example_index = ''{"apis":[],"basePath":"http://x/api"}''\<close>

definition example_options :: IGenerateApisOptions where
  \<open>example_options =
     \<lparr>opt_url = example_url, opt_dest = ''./generated'', opt_splitInterfaces = False,
      opt_groupClass = ''All''\<rparr>\<close>

definition example_operation :: IOperation where
  \<open>example_operation =
     \<lparr>op_method = ''GET'', op_nickname = ''getPet'', op_parameters = [],
      op_summary = '''', op_type = ''Pet''\<rparr>\<close>

definition example_path_parameter :: IParameter where
  \<open>example_path_parameter =
     \<lparr>param_description = '''', param_enum = None, param_format = None, param_name = ''id'',
      param_paramType = Some ''path'', param_required = False, param_type = ''integer''\<rparr>\<close>

definition example_model :: \<open>string \<Rightarrow> IModel\<close> where
  \<open>example_model field_name =
     \<lparr>model_id = ''X'', model_required = [field_name],
      model_properties = [(field_name, IModelProperty (Some ''string'') None None None None)]\<rparr>\<close>

definition example_api :: \<open>string \<Rightarrow> IApi\<close> where
  \<open>example_api name =
     \<lparr>api_apiVersion = ''1'',
      api_apis = [\<lparr>ao_operations = [], ao_path = ''/'' @ name\<rparr>],
      api_basePath = ''http://x'', api_description = '''',
      api_models = [(''X'', example_model name)],
      api_resourcePath = ''/'' @ name\<rparr>\<close>

definition example_order :: IModel where
  \<open>example_order =
     \<lparr>model_id = ''Order'', model_required = [],
      model_properties =
        [(''buyer'', IModelProperty None None None None (Some ''User'')),
         (''seller'', IModelProperty None None None None (Some ''User'')),
         (''lines'', IModelProperty (Some ''array'') None
                      (Some (IModelProperty None None None None (Some ''Line''))) None None)]\<rparr>\<close>


section \<open>Properties of the renderers\<close>

subsection \<open>Loops that append\<close>

lemma foldl_append_step:
  assumes \<open>\<And>out x. f out x = out @ f [] x\<close>
  shows \<open>foldl f out xs = out @ concat (map (f []) xs)\<close>
proof (induction xs arbitrary: out)
  case Nil
  show ?case by simp
next
  case (Cons x xs)
  have \<open>foldl f out (x # xs) = foldl f (f out x) xs\<close> by simp
  also have \<open>\<dots> = f out x @ concat (map (f []) xs)\<close> by (rule Cons.IH)
  also have \<open>\<dots> = (out @ f [] x) @ concat (map (f []) xs)\<close> using assms[of out x] by simp
  finally show ?case by simp
qed

lemma getTsInterface_field_text:
  \<open>getTsInterface_field model out (name, property) =
     out @ ''\<newline>''
     @ (if truthy_str (prop_description property) then ''  // '' @ the (prop_description property) else '''')
     @ ''\<newline>  '' @ name @ (if name \<in> set (model_required model) then '''' else ''?'')
     @ '': '' @ getTsPropertyType property @ '';''\<close>
  by (simp add: getTsInterface_field_def Let_def)

lemma getTsInterface2_field_text:
  \<open>getTsInterface2_field model out (name, property) =
     out @ ''\<newline>''
     @ (if truthy_str (prop_description property)
        then ''  // '' @ the (prop_description property) @ ''\<newline>'' else '''')
     @ ''  '' @ name @ (if name \<in> set (model_required model) then '''' else ''?'')
     @ '': '' @ getTsType property @ '';\<newline>''\<close>
  by (simp add: getTsInterface2_field_def Let_def)

lemma getTsInterface_field_append:
  \<open>getTsInterface_field model out entry = out @ getTsInterface_field model [] entry\<close>
  by (cases entry) (simp add: getTsInterface_field_text)

lemma getTsInterface2_field_append:
  \<open>getTsInterface2_field model out entry = out @ getTsInterface2_field model [] entry\<close>
  by (cases entry) (simp add: getTsInterface2_field_text)

lemma getTsInterface_text:
  \<open>getTsInterface model options =
     getTsInterface_imports model options
     @ ''export interface '' @ getTsInterfaceName (model_id model) @ '' {''
     @ concat (map (getTsInterface_field model []) (model_properties model))
     @ ''\<newline>}''\<close>
  using foldl_append_step[of \<open>getTsInterface_field model\<close>, OF getTsInterface_field_append]
  by (simp add: getTsInterface_def Let_def)

lemma getTsInterface2_text:
  \<open>getTsInterface2 model options =
     getTsInterface_imports model options
     @ ''export interface '' @ getTsInterfaceName (model_id model) @ '' {''
     @ concat (map (getTsInterface2_field model []) (model_properties model))
     @ ''}\<newline>''\<close>
  using foldl_append_step[of \<open>getTsInterface2_field model\<close>, OF getTsInterface2_field_append]
  by (simp add: getTsInterface2_def Let_def)

subsection \<open>The options declaration of the first module\<close>

lemma getTsOperationOptionsInterface_groups_fold:
  \<open>foldl getTsOperationOptionsInterface_groups (b, q, p) ps =
     (b @ concat (map getTsParam (filter (\<lambda>x. param_paramType x = Some ''body'') ps)),
      q @ concat (map getTsParam (filter (\<lambda>x. param_paramType x = Some ''query'') ps)),
      p @ concat (map getTsParam (filter (\<lambda>x. param_paramType x = Some ''path'') ps)))\<close>
  by (induction ps arbitrary: b q p) (simp_all add: getTsOperationOptionsInterface_groups_def Let_def)

lemma getTsParam_nonempty: \<open>getTsParam parameter \<noteq> []\<close>
  by (simp add: getTsParam_def Let_def)

lemma concat_getTsParam_empty: \<open>concat (map getTsParam ps) = [] \<longleftrightarrow> ps = []\<close>
  by (cases ps) (simp_all add: getTsParam_nonempty)

text \<open>
  In the first module every group with a parameter becomes one field, \<^verbatim>\<open>body\<close>,
  \<^verbatim>\<open>query\<close> or \<^verbatim>\<open>params\<close>, and the field carries \<^verbatim>\<open>?\<close> exactly when no parameter
  of the group is required.
\<close>

lemma getTsOperationOptionsInterface_text:
  \<open>getTsOperationOptionsInterface operation options =
     getTsOperationOptionsInterface_imports operation options
     @ ''export interface '' @ getTsOperationOptionsInterfaceName operation
     @ '' extends IOperationOptions {''
     @ (let group = filter (\<lambda>p. param_paramType p = Some ''body'') (op_parameters operation)
        in if group = [] then ''''
           else ''\<newline>  body'' @ (if (\<exists>p \<in> set group. param_required p) then '''' else ''?'')
                @ '': {'' @ concat (map getTsParam group) @ ''\<newline>  };\<newline>'')
     @ (let group = filter (\<lambda>p. param_paramType p = Some ''query'') (op_parameters operation)
        in if group = [] then ''''
           else ''\<newline>  query'' @ (if (\<exists>p \<in> set group. param_required p) then '''' else ''?'')
                @ '': {'' @ concat (map getTsParam group) @ ''\<newline>  };'')
     @ (let group = filter (\<lambda>p. param_paramType p = Some ''path'') (op_parameters operation)
        in if group = [] then ''''
           else ''\<newline>  params'' @ (if (\<exists>p \<in> set group. param_required p) then '''' else ''?'')
                @ '': {'' @ concat (map getTsParam group) @ ''\<newline>  };'')
     @ ''\<newline>}''\<close>
  unfolding getTsOperationOptionsInterface_def getTsOperationOptionsInterface_groups_fold
  by (simp add: Let_def concat_getTsParam_empty list_ex_iff del: set_filter concat_eq_Nil_conv)

subsection \<open>The method of an operation\<close>

lemma getTsOperation_text:
  \<open>getTsOperation lower operation url =
     getJsDocOperation operation
     @ ''\<newline>  async '' @ unTitleCase lower (op_nickname operation)
     @ ''(options'' @ (if list_ex param_required (op_parameters operation) then '''' else ''?'') @ '': ''
     @ getTsOperationOptionsInterfaceName operation
     @ ''): Promise<'' @ getTsInterfaceName (op_type operation) @ ''> {''
     @ ''\<newline>    return this.requestJson({ method: '' @ quoted (op_method operation)
     @ '', path: '' @ quoted url @ '', ...options });''
     @ ''\<newline>  }''\<close>
  by (simp add: getTsOperation_def Let_def)

text \<open>
  In the first module the options argument of the method carries \<^verbatim>\<open>?\<close> exactly when no
  parameter of the operation is required: always without parameters, never when there are
  parameters and all are required.
\<close>

lemma getTsOperation_options_marker:
  \<open>getTsOperation lower operation url =
     getJsDocOperation operation
     @ ''\<newline>  async '' @ unTitleCase lower (op_nickname operation)
     @ ''(options''
     @ (if (\<forall>p \<in> set (op_parameters operation). \<not> param_required p) then ''?'' else '''')
     @ '': '' @ getTsOperationOptionsInterfaceName operation
     @ ''): Promise<'' @ getTsInterfaceName (op_type operation) @ ''> {''
     @ ''\<newline>    return this.requestJson({ method: '' @ quoted (op_method operation)
     @ '', path: '' @ quoted url @ '', ...options });''
     @ ''\<newline>  }''\<close>
  by (simp add: getTsOperation_text list_ex_iff)

lemma getTsOperation_no_parameters:
  assumes \<open>op_parameters operation = []\<close>
  shows \<open>getTsOperation lower operation url =
     getJsDocOperation operation
     @ ''\<newline>  async '' @ unTitleCase lower (op_nickname operation)
     @ ''(options?: '' @ getTsOperationOptionsInterfaceName operation
     @ ''): Promise<'' @ getTsInterfaceName (op_type operation) @ ''> {''
     @ ''\<newline>    return this.requestJson({ method: '' @ quoted (op_method operation)
     @ '', path: '' @ quoted url @ '', ...options });''
     @ ''\<newline>  }''\<close>
  using assms by (simp add: getTsOperation_text)

lemma getTsOperation_all_required:
  assumes \<open>op_parameters operation \<noteq> []\<close>
    and \<open>\<forall>p \<in> set (op_parameters operation). param_required p\<close>
  shows \<open>getTsOperation lower operation url =
     getJsDocOperation operation
     @ ''\<newline>  async '' @ unTitleCase lower (op_nickname operation)
     @ ''(options: '' @ getTsOperationOptionsInterfaceName operation
     @ ''): Promise<'' @ getTsInterfaceName (op_type operation) @ ''> {''
     @ ''\<newline>    return this.requestJson({ method: '' @ quoted (op_method operation)
     @ '', path: '' @ quoted url @ '', ...options });''
     @ ''\<newline>  }''\<close>
proof -
  from assms obtain p where \<open>p \<in> set (op_parameters operation)\<close> and \<open>param_required p\<close>
    by (cases \<open>op_parameters operation\<close>) auto
  then have \<open>list_ex param_required (op_parameters operation)\<close>
    by (auto simp: list_ex_iff)
  then show ?thesis
    by (simp add: getTsOperation_text)
qed

text \<open>In the second module the options argument never carries the marker.\<close>

lemma getTsOperation2_text:
  \<open>getTsOperation2 lower operation url =
     (if op_summary operation \<noteq> [] then ''  // '' @ op_summary operation @ ''\<newline>'' else '''')
     @ ''  async '' @ unTitleCase lower (op_nickname operation)
     @ ''(options: '' @ getTsOperationOptionsInterfaceName operation
     @ ''): Promise<'' @ getTsInterfaceName (op_type operation) @ ''> {\<newline>''
     @ ''    return this.requestJson({ method: '' @ quoted (op_method operation)
     @ '', path: '' @ quoted url @ '', ...options });\<newline>''
     @ ''  }\<newline>''\<close>
  by (simp add: getTsOperation2_def Let_def)

subsection \<open>The name of the method\<close>

lemma toLowerCase_ascii_upper:
  \<open>c \<in> set upper_letters \<Longrightarrow> toLowerCase_ascii c \<noteq> c\<close>
  by (auto simp: upper_letters_def lower_letters_def toLowerCase_ascii_def)

lemma toLowerCase_ascii_other:
  \<open>c \<notin> set upper_letters \<Longrightarrow> toLowerCase_ascii c = c\<close>
  by (simp add: upper_letters_def lower_letters_def toLowerCase_ascii_def)

lemma upper_letters_ascii:
  \<open>c \<in> set upper_letters \<Longrightarrow> is_ascii c\<close>
  by (auto simp: upper_letters_def is_ascii_def)

text \<open>A character below U+0080 at the start of a string is lowered without the platform.\<close>

lemma unTitleCase_ascii:
  \<open>is_ascii c \<Longrightarrow> unTitleCase lower (c # cs) = toLowerCase_ascii c # cs\<close>
  by (simp add: is_ascii_def is_lead4_def char_width_def toLowerCase_def)

lemma unTitleCase_text:
  \<open>unTitleCase lower nickname =
     (if nickname = [] \<or> is_lead4 (hd nickname) then nickname
      else toLowerCase lower (take (char_width (hd nickname)) nickname)
           @ drop (char_width (hd nickname)) nickname)\<close>
  by (cases nickname) simp_all

text \<open>The result differs from the string exactly when lowering changes its first
  character.\<close>

lemma unTitleCase_differs:
  \<open>unTitleCase lower nickname \<noteq> nickname \<longleftrightarrow>
     nickname \<noteq> [] \<and> \<not> is_lead4 (hd nickname)
     \<and> toLowerCase lower (take (char_width (hd nickname)) nickname)
         \<noteq> take (char_width (hd nickname)) nickname\<close>
proof -
  have \<open>(a @ drop n xs = xs) = (a = take n xs)\<close> for a xs :: string and n
    using append_same_eq[of a \<open>drop n xs\<close> \<open>take n xs\<close>] by simp
  then show ?thesis
    by (simp add: unTitleCase_text)
qed

subsection \<open>Merging resources\<close>

lemma map_of_spread:
  \<open>distinct (map fst b) \<Longrightarrow> map_of (spread a b) = map_of a ++ map_of b\<close>
proof (induction b arbitrary: a)
  case Nil
  show ?case by (simp add: spread_def)
next
  case (Cons kv b)
  obtain k v where kv: \<open>kv = (k, v)\<close> by (cases kv)
  from Cons.prems kv have fresh: \<open>k \<notin> dom (map_of b)\<close> and dist: \<open>distinct (map fst b)\<close>
    by (auto simp: dom_map_of_conv_image_fst)
  have \<open>map_of (spread a (kv # b)) = map_of (spread (AList.update k v a) b)\<close>
    by (simp add: spread_def kv)
  also have \<open>\<dots> = map_of (AList.update k v a) ++ map_of b\<close>
    by (rule Cons.IH[OF dist])
  also have \<open>\<dots> = (map_of a)(k \<mapsto> v) ++ map_of b\<close>
    by (simp add: update_conv')
  also have \<open>\<dots> = map_of a ++ map_of (kv # b)\<close>
    using fresh by (simp add: kv map_add_upd_left)
  finally show ?case .
qed

lemma api_apis_foldl_merge:
  \<open>api_apis (foldl generateApis_merge x xs) = api_apis x @ concat (map api_apis xs)\<close>
  by (induction xs arbitrary: x) (simp_all add: generateApis_merge_def)

subsection \<open>The loader\<close>

lemma getJson_miss:
  assumes \<open>files w (cache_filename url) = None\<close> and \<open>net url = Some body\<close>
    and \<open>JSON_parse N body = Inr d\<close>
  shows \<open>getJson N net url w =
           (Inr (Json d),
            writeFile (cache_filename url) (JSON_stringify N d)
              ((mkdir ''./cache'' w)\<lparr>requests := requests w @ [url]\<rparr>))\<close>
    and \<open>getJson2 N net url w =
           (Inr (Json d),
            writeFile (cache_filename url) (JSON_stringify N d)
              ((mkdir ''./cache'' w)\<lparr>requests := requests w @ [url]\<rparr>))\<close>
  using assms
  by (simp_all add: getJson_def getJson2_def getJson_request_def fetch_def mkdir_def Let_def)








lemma JSON_index_example:
  \<open>JSON_parse integer_numbers ''{"apis":[],"basePath":"http://x/api"}'' =
     Inr (JObj [(''apis'', JArr []), (''basePath'', JStr ''http://x/api'')])\<close>
  by code_simp

subsection \<open>Runs with a group class\<close>

lemma generateApis_with_no_resources:
  assumes group: \<open>opt_groupClass options \<noteq> []\<close>
    and tmpl: \<open>files w (dirname @ ''/../template/Api.ts'') = Some template\<close>
    and load: \<open>gj net (opt_url options)
                 (writeFile (opt_dest options @ ''/Api.ts'') template
                   (if opt_splitInterfaces options
                    then mkdir (opt_dest options @ ''/interfaces'') (mkdir (opt_dest options) w)
                    else mkdir (opt_dest options) w)) = (Inr v, w2)\<close>
    and idx: \<open>asISchemaApi v = Some schemaApi\<close> and none: \<open>schema_apis schemaApi = []\<close>
  shows \<open>generateApis_with lower gj ta ti to net dirname options w = (Inl TypeError, w2)\<close>
proof -
  define w0 where \<open>w0 = (if opt_splitInterfaces options
                    then mkdir (opt_dest options @ ''/interfaces'') (mkdir (opt_dest options) w)
                    else mkdir (opt_dest options) w)\<close>
  have \<open>files w0 = files w\<close>
    by (simp add: w0_def mkdir_def)
  with tmpl have copy: \<open>copyFile (dirname @ ''/../template/Api.ts'') (opt_dest options @ ''/Api.ts'') w0
                     = (Inr (), writeFile (opt_dest options @ ''/Api.ts'') template w0)\<close>
    by (simp add: copyFile_def)
  from load have load': \<open>gj net (opt_url options)
                 (writeFile (opt_dest options @ ''/Api.ts'') template w0) = (Inr v, w2)\<close>
    by (simp add: w0_def)
  have \<open>generateApis_with lower gj ta ti to net dirname options w =
          (case copyFile (dirname @ ''/../template/Api.ts'') (opt_dest options @ ''/Api.ts'') w0 of
           (Inl e, w) \<Rightarrow> (Inl e, w)
         | (Inr u, w) \<Rightarrow>
             (case gj net (opt_url options) w of
                (Inl e, w) \<Rightarrow> (Inl e, w)
              | (Inr v, w) \<Rightarrow>
                  (case asISchemaApi v of
                     None \<Rightarrow> (Inl BadShape, w)
                   | Some schemaApi \<Rightarrow>
                       (case generateApis_loop lower gj ta ti to net options schemaApi
                               (schema_apis schemaApi) [] w of
                          (Inl e, w) \<Rightarrow> (Inl e, w)
                        | (Inr apis, w) \<Rightarrow>
                            (if opt_groupClass options \<noteq> []
                             then (case reduce generateApis_merge apis of
                                     Inl e \<Rightarrow> (Inl e, w)
                                   | Inr api \<Rightarrow>
                                       (Inr (),
                                        writeFile (opt_dest options @ ''/''
                                                     @ opt_groupClass options @ ''.ts'')
                                          (ta (opt_groupClass options) api options) w))
                             else (Inr (), w))))))\<close>
    by (simp add: generateApis_with_def w0_def Let_def)
  then show ?thesis
    by (simp add: copy load' idx none group)
qed

lemma generateApis_with_group:
  assumes group: \<open>opt_groupClass options \<noteq> []\<close>
    and tmpl: \<open>files w (dirname @ ''/../template/Api.ts'') = Some template\<close>
    and load: \<open>gj net (opt_url options)
                 (writeFile (opt_dest options @ ''/Api.ts'') template
                   (if opt_splitInterfaces options
                    then mkdir (opt_dest options @ ''/interfaces'') (mkdir (opt_dest options) w)
                    else mkdir (opt_dest options) w)) = (Inr v, w2)\<close>
    and idx: \<open>asISchemaApi v = Some schemaApi\<close>
    and loop: \<open>generateApis_loop lower gj ta ti to net options schemaApi (schema_apis schemaApi) [] w2
                 = (Inr (x # xs), w3)\<close>
  shows \<open>generateApis_with lower gj ta ti to net dirname options w =
           (Inr (),
            writeFile (opt_dest options @ ''/'' @ opt_groupClass options @ ''.ts'')
              (ta (opt_groupClass options) (foldl generateApis_merge x xs) options) w3)\<close>
proof -
  define w0 where \<open>w0 = (if opt_splitInterfaces options
                    then mkdir (opt_dest options @ ''/interfaces'') (mkdir (opt_dest options) w)
                    else mkdir (opt_dest options) w)\<close>
  have \<open>files w0 = files w\<close>
    by (simp add: w0_def mkdir_def)
  with tmpl have copy: \<open>copyFile (dirname @ ''/../template/Api.ts'') (opt_dest options @ ''/Api.ts'') w0
                     = (Inr (), writeFile (opt_dest options @ ''/Api.ts'') template w0)\<close>
    by (simp add: copyFile_def)
  from load have load': \<open>gj net (opt_url options)
                 (writeFile (opt_dest options @ ''/Api.ts'') template w0) = (Inr v, w2)\<close>
    by (simp add: w0_def)
  have \<open>generateApis_with lower gj ta ti to net dirname options w =
          (case copyFile (dirname @ ''/../template/Api.ts'') (opt_dest options @ ''/Api.ts'') w0 of
           (Inl e, w) \<Rightarrow> (Inl e, w)
         | (Inr u, w) \<Rightarrow>
             (case gj net (opt_url options) w of
                (Inl e, w) \<Rightarrow> (Inl e, w)
              | (Inr v, w) \<Rightarrow>
                  (case asISchemaApi v of
                     None \<Rightarrow> (Inl BadShape, w)
                   | Some schemaApi \<Rightarrow>
                       (case generateApis_loop lower gj ta ti to net options schemaApi
                               (schema_apis schemaApi) [] w of
                          (Inl e, w) \<Rightarrow> (Inl e, w)
                        | (Inr apis, w) \<Rightarrow>
                            (if opt_groupClass options \<noteq> []
                             then (case reduce generateApis_merge apis of
                                     Inl e \<Rightarrow> (Inl e, w)
                                   | Inr api \<Rightarrow>
                                       (Inr (),
                                        writeFile (opt_dest options @ ''/''
                                                     @ opt_groupClass options @ ''.ts'')
                                          (ta (opt_groupClass options) api options) w))
                             else (Inr (), w))))))\<close>
    by (simp add: generateApis_with_def w0_def Let_def)
  then show ?thesis
    by (simp add: copy load' idx loop group)
qed

subsection \<open>The options declaration of the second module\<close>

lemma getTsOperationOptionsInterface2_groups_step:
  \<open>getTsOperationOptionsInterface2_groups (b, q, p, br, qr) x =
     (if param_paramType x = Some ''body'' then b @ getTsOperationOptionsInterface2_body x else b,
      if param_paramType x = Some ''query'' then q @ getTsOperationOptionsInterface2_query x else q,
      if param_paramType x = Some ''path'' then p @ getTsOperationOptionsInterface2_path x else p,
      br \<or> param_paramType x = Some ''body'' \<and> param_required x,
      qr \<or> param_paramType x = Some ''query'' \<and> param_required x)\<close>
  by (simp add: getTsOperationOptionsInterface2_groups_def getTsOperationOptionsInterface2_body_def
      getTsOperationOptionsInterface2_query_def getTsOperationOptionsInterface2_path_def Let_def)

lemma getTsOperationOptionsInterface2_groups_fold:
  \<open>foldl getTsOperationOptionsInterface2_groups (b, q, p, br, qr) ps =
     (b @ concat (map getTsOperationOptionsInterface2_body
                    (filter (\<lambda>x. param_paramType x = Some ''body'') ps)),
      q @ concat (map getTsOperationOptionsInterface2_query
                    (filter (\<lambda>x. param_paramType x = Some ''query'') ps)),
      p @ concat (map getTsOperationOptionsInterface2_path
                    (filter (\<lambda>x. param_paramType x = Some ''path'') ps)),
      br \<or> list_ex param_required (filter (\<lambda>x. param_paramType x = Some ''body'') ps),
      qr \<or> list_ex param_required (filter (\<lambda>x. param_paramType x = Some ''query'') ps))\<close>
proof (induction ps arbitrary: b q p br qr)
  case Nil
  show ?case by simp
next
  case (Cons x ps)
  show ?case
    unfolding foldl_Cons getTsOperationOptionsInterface2_groups_step Cons.IH
    by auto
qed

lemma getTsOperationOptionsInterface2_body_nonempty:
  \<open>getTsOperationOptionsInterface2_body param \<noteq> []\<close>
  by (simp add: getTsOperationOptionsInterface2_body_def)

lemma getTsOperationOptionsInterface2_query_nonempty:
  \<open>getTsOperationOptionsInterface2_query param \<noteq> []\<close>
  by (simp add: getTsOperationOptionsInterface2_query_def)

lemma getTsOperationOptionsInterface2_path_nonempty:
  \<open>getTsOperationOptionsInterface2_path param \<noteq> []\<close>
  by (simp add: getTsOperationOptionsInterface2_path_def)

lemma concat_map_nonempty:
  assumes \<open>\<And>x. f x \<noteq> []\<close>
  shows \<open>concat (map f xs) = [] \<longleftrightarrow> xs = []\<close>
  using assms by (cases xs) simp_all

text \<open>
  In the second module every group with a parameter becomes one field as well. The
  fields \<^verbatim>\<open>body\<close> and \<^verbatim>\<open>query\<close> carry \<^verbatim>\<open>?\<close> exactly when no parameter of the group
  is required; the field \<^verbatim>\<open>params\<close> never carries it.
\<close>

lemma getTsOperationOptionsInterface2_text:
  \<open>getTsOperationOptionsInterface2 operation options =
     getTsOperationOptionsInterface2_imports operation options
     @ ''export interface '' @ getTsOperationOptionsInterfaceName operation
     @ '' extends IOperationOptions {''
     @ (let group = filter (\<lambda>p. param_paramType p = Some ''body'') (op_parameters operation)
        in if group = [] then ''''
           else ''\<newline>  body'' @ (if (\<exists>p \<in> set group. param_required p) then '''' else ''?'')
                @ '': {'' @ concat (map getTsOperationOptionsInterface2_body group)
                @ ''  };\<newline>'')
     @ (let group = filter (\<lambda>p. param_paramType p = Some ''query'') (op_parameters operation)
        in if group = [] then ''''
           else ''\<newline>  query'' @ (if (\<exists>p \<in> set group. param_required p) then '''' else ''?'')
                @ '': {'' @ concat (map getTsOperationOptionsInterface2_query group)
                @ ''  };\<newline>'')
     @ (let group = filter (\<lambda>p. param_paramType p = Some ''path'') (op_parameters operation)
        in if group = [] then ''''
           else ''\<newline>  params: {'' @ concat (map getTsOperationOptionsInterface2_path group)
                @ ''  };\<newline>'')
     @ ''}\<newline>''\<close>
  unfolding getTsOperationOptionsInterface2_def getTsOperationOptionsInterface2_groups_fold
  by (simp add: Let_def list_ex_iff
      concat_map_nonempty[of getTsOperationOptionsInterface2_body,
        OF getTsOperationOptionsInterface2_body_nonempty]
      concat_map_nonempty[of getTsOperationOptionsInterface2_query,
        OF getTsOperationOptionsInterface2_query_nonempty]
      concat_map_nonempty[of getTsOperationOptionsInterface2_path,
        OF getTsOperationOptionsInterface2_path_nonempty]
      del: set_filter concat_eq_Nil_conv)

lemma getTsOperationOptionsInterface2_header:
  \<open>\<exists>fields. getTsOperationOptionsInterface2 operation options =
     getTsOperationOptionsInterface2_imports operation options
     @ ''export interface '' @ getTsOperationOptionsInterfaceName operation
     @ '' extends IOperationOptions {'' @ fields\<close>
proof -
  obtain body query path bodyRequired queryRequired where
    \<open>foldl getTsOperationOptionsInterface2_groups ('''', '''', '''', False, False)
       (op_parameters operation) = (body, query, path, bodyRequired, queryRequired)\<close>
    by (metis prod_cases5)
  then show ?thesis
    by (simp add: getTsOperationOptionsInterface2_def Let_def)
qed


section \<open>The claims\<close>

text \<open>
  Claim C1. The options argument of the generated method is optional exactly when no
  parameter of the operation is required; in particular it is optional for an operation
  without parameters. The first module does this (\<open>getTsOperation_options_marker\<close>,
  \<open>getTsOperation_no_parameters\<close>, \<open>getTsOperation_all_required\<close>). The second module
  renders \<^verbatim>\<open>options:\<close> without the marker for every operation (\<open>getTsOperation2_text\<close>);
  on an operation without parameters its method reads as follows.
\<close>

theorem getTsOperation2_without_parameters:
  \<open>getTsOperation2 lower (example_operation\<lparr>op_nickname := ''listPets''\<rparr>) ''/pets'' =
     ''  async listPets(options: IlistPetsOptions): Promise<IPet> {\<newline>''
     @ ''    return this.requestJson({ method: \'GET\', path: \'/pets\', ...options });\<newline>''
     @ ''  }\<newline>''\<close>
  by (simp add: getTsOperation2_def example_operation_def Let_def
      getTsOperationOptionsInterfaceName_def getTsInterfaceName_def quoted_def
      is_lead4_def char_width_def toLowerCase_def is_ascii_def
      toLowerCase_ascii_def upper_letters_def lower_letters_def)

text \<open>
  Claim C2, as the code has it. In the options declaration of either module every group
  with a parameter becomes one field, \<^verbatim>\<open>body\<close>, \<^verbatim>\<open>query\<close> or \<^verbatim>\<open>params\<close>, and a group
  without a parameter becomes none. In the first module each of the three fields carries
  \<^verbatim>\<open>?\<close> exactly when no parameter of its group is required. In the second module the
  fields \<^verbatim>\<open>body\<close> and \<^verbatim>\<open>query\<close> do so too, while the field \<^verbatim>\<open>params\<close> and its
  members are written without the marker whatever the path parameters say; so the second
  module marks all three fields by the rule of the first exactly on the operations whose
  path group is empty or holds a required parameter.
\<close>

theorem getTsOperationOptionsInterface_group_fields:
  \<open>getTsOperationOptionsInterface operation options =
     getTsOperationOptionsInterface_imports operation options
     @ ''export interface '' @ getTsOperationOptionsInterfaceName operation
     @ '' extends IOperationOptions {''
     @ (let group = filter (\<lambda>p. param_paramType p = Some ''body'') (op_parameters operation)
        in if group = [] then ''''
           else ''\<newline>  body'' @ (if (\<exists>p \<in> set group. param_required p) then '''' else ''?'')
                @ '': {'' @ concat (map getTsParam group) @ ''\<newline>  };\<newline>'')
     @ (let group = filter (\<lambda>p. param_paramType p = Some ''query'') (op_parameters operation)
        in if group = [] then ''''
           else ''\<newline>  query'' @ (if (\<exists>p \<in> set group. param_required p) then '''' else ''?'')
                @ '': {'' @ concat (map getTsParam group) @ ''\<newline>  };'')
     @ (let group = filter (\<lambda>p. param_paramType p = Some ''path'') (op_parameters operation)
        in if group = [] then ''''
           else ''\<newline>  params'' @ (if (\<exists>p \<in> set group. param_required p) then '''' else ''?'')
                @ '': {'' @ concat (map getTsParam group) @ ''\<newline>  };'')
     @ ''\<newline>}''
   \<and> getTsOperationOptionsInterface2 operation options =
     getTsOperationOptionsInterface2_imports operation options
     @ ''export interface '' @ getTsOperationOptionsInterfaceName operation
     @ '' extends IOperationOptions {''
     @ (let group = filter (\<lambda>p. param_paramType p = Some ''body'') (op_parameters operation)
        in if group = [] then ''''
           else ''\<newline>  body'' @ (if (\<exists>p \<in> set group. param_required p) then '''' else ''?'')
                @ '': {'' @ concat (map getTsOperationOptionsInterface2_body group)
                @ ''  };\<newline>'')
     @ (let group = filter (\<lambda>p. param_paramType p = Some ''query'') (op_parameters operation)
        in if group = [] then ''''
           else ''\<newline>  query'' @ (if (\<exists>p \<in> set group. param_required p) then '''' else ''?'')
                @ '': {'' @ concat (map getTsOperationOptionsInterface2_query group)
                @ ''  };\<newline>'')
     @ (let group = filter (\<lambda>p. param_paramType p = Some ''path'') (op_parameters operation)
        in if group = [] then ''''
           else ''\<newline>  params: {'' @ concat (map getTsOperationOptionsInterface2_path group)
                @ ''  };\<newline>'')
     @ ''}\<newline>''
   \<and> (getTsOperationOptionsInterface2 operation options =
     getTsOperationOptionsInterface2_imports operation options
     @ ''export interface '' @ getTsOperationOptionsInterfaceName operation
     @ '' extends IOperationOptions {''
     @ (let group = filter (\<lambda>p. param_paramType p = Some ''body'') (op_parameters operation)
        in if group = [] then ''''
           else ''\<newline>  body'' @ (if (\<exists>p \<in> set group. param_required p) then '''' else ''?'')
                @ '': {'' @ concat (map getTsOperationOptionsInterface2_body group)
                @ ''  };\<newline>'')
     @ (let group = filter (\<lambda>p. param_paramType p = Some ''query'') (op_parameters operation)
        in if group = [] then ''''
           else ''\<newline>  query'' @ (if (\<exists>p \<in> set group. param_required p) then '''' else ''?'')
                @ '': {'' @ concat (map getTsOperationOptionsInterface2_query group)
                @ ''  };\<newline>'')
     @ (let group = filter (\<lambda>p. param_paramType p = Some ''path'') (op_parameters operation)
        in if group = [] then ''''
           else ''\<newline>  params'' @ (if (\<exists>p \<in> set group. param_required p) then '''' else ''?'')
                @ '': {'' @ concat (map getTsOperationOptionsInterface2_path group)
                @ ''  };\<newline>'')
     @ ''}\<newline>''
     \<longleftrightarrow>
       (let group = filter (\<lambda>p. param_paramType p = Some ''path'') (op_parameters operation)
        in group = [] \<or> (\<exists>p \<in> set group. param_required p)))\<close>
proof -
  have agree: \<open>getTsOperationOptionsInterface2 operation options =
     getTsOperationOptionsInterface2_imports operation options
     @ ''export interface '' @ getTsOperationOptionsInterfaceName operation
     @ '' extends IOperationOptions {''
     @ (let group = filter (\<lambda>p. param_paramType p = Some ''body'') (op_parameters operation)
        in if group = [] then ''''
           else ''\<newline>  body'' @ (if (\<exists>p \<in> set group. param_required p) then '''' else ''?'')
                @ '': {'' @ concat (map getTsOperationOptionsInterface2_body group)
                @ ''  };\<newline>'')
     @ (let group = filter (\<lambda>p. param_paramType p = Some ''query'') (op_parameters operation)
        in if group = [] then ''''
           else ''\<newline>  query'' @ (if (\<exists>p \<in> set group. param_required p) then '''' else ''?'')
                @ '': {'' @ concat (map getTsOperationOptionsInterface2_query group)
                @ ''  };\<newline>'')
     @ (let group = filter (\<lambda>p. param_paramType p = Some ''path'') (op_parameters operation)
        in if group = [] then ''''
           else ''\<newline>  params'' @ (if (\<exists>p \<in> set group. param_required p) then '''' else ''?'')
                @ '': {'' @ concat (map getTsOperationOptionsInterface2_path group)
                @ ''  };\<newline>'')
     @ ''}\<newline>''
     \<longleftrightarrow>
       (let group = filter (\<lambda>p. param_paramType p = Some ''path'') (op_parameters operation)
        in group = [] \<or> (\<exists>p \<in> set group. param_required p))\<close>
    unfolding getTsOperationOptionsInterface2_text
    by (simp add: Let_def del: set_filter)
  from getTsOperationOptionsInterface_text[of operation options]
    getTsOperationOptionsInterface2_text[of operation options] agree
  show ?thesis
    by (intro conjI)
qed

theorem getTsOperationOptionsInterface_group_fields_witness:
  \<open>op_parameters
       (example_operation\<lparr>op_parameters := [example_path_parameter\<lparr>param_required := True\<rparr>]\<rparr>)
     = [example_path_parameter\<lparr>param_required := True\<rparr>]
   \<and> param_paramType (example_path_parameter\<lparr>param_required := True\<rparr>) = Some ''path''
   \<and> param_required (example_path_parameter\<lparr>param_required := True\<rparr>)
   \<and> getTsOperationOptionsInterface2
       (example_operation\<lparr>op_parameters := [example_path_parameter\<lparr>param_required := True\<rparr>]\<rparr>)
       (example_options\<lparr>opt_groupClass := ''''\<rparr>) =
     ''export interface IgetPetOptions extends IOperationOptions {''
     @ ''\<newline>  params: {\<newline>    id: number;\<newline>  };\<newline>}\<newline>''
   \<and> getTsOperationOptionsInterface
       (example_operation\<lparr>op_parameters := [example_path_parameter\<lparr>param_required := True\<rparr>]\<rparr>)
       (example_options\<lparr>opt_groupClass := ''''\<rparr>) =
     ''export interface IgetPetOptions extends IOperationOptions {''
     @ ''\<newline>  params: {\<newline>    id: number;\<newline>  };\<newline>}''\<close>
  using getTsOperationOptionsInterface_group_fields[of
      \<open>example_operation\<lparr>op_parameters := [example_path_parameter\<lparr>param_required := True\<rparr>]\<rparr>\<close>
      \<open>example_options\<lparr>opt_groupClass := ''''\<rparr>\<close>]
  by (simp add: getTsOperationOptionsInterface2_path_def getTsOperationOptionsInterface2_imports_def
      getTsOperationOptionsInterface_imports_def getTsParam_def getTsParameterType_def
      getTsOperationOptionsInterfaceName_def mapType_def Let_def
      example_operation_def example_path_parameter_def example_options_def)

text \<open>
  The claim as it was stated fails in the second module on an operation whose only
  parameter is a path parameter that is not required: no parameter of the path group is
  required, yet \<^verbatim>\<open>params\<close> is written without the marker. The first module writes
  \<^verbatim>\<open>params?\<close> for the same operation.
\<close>

theorem getTsOperationOptionsInterface2_optional_path_parameter:
  \<open>op_parameters (example_operation\<lparr>op_parameters := [example_path_parameter]\<rparr>)
     = [example_path_parameter]
   \<and> param_paramType example_path_parameter = Some ''path''
   \<and> \<not> param_required example_path_parameter
   \<and> getTsOperationOptionsInterface2
       (example_operation\<lparr>op_parameters := [example_path_parameter]\<rparr>)
       (example_options\<lparr>opt_groupClass := ''''\<rparr>) =
     ''export interface IgetPetOptions extends IOperationOptions {''
     @ ''\<newline>  params: {\<newline>    id: number;\<newline>  };\<newline>}\<newline>''
   \<and> getTsOperationOptionsInterface
       (example_operation\<lparr>op_parameters := [example_path_parameter]\<rparr>)
       (example_options\<lparr>opt_groupClass := ''''\<rparr>) =
     ''export interface IgetPetOptions extends IOperationOptions {''
     @ ''\<newline>  params?: {\<newline>    id?: number;\<newline>  };\<newline>}''\<close>
  by (simp add: getTsOperationOptionsInterface2_def getTsOperationOptionsInterface2_groups_def
      getTsOperationOptionsInterface2_imports_def Let_def getTsOperationOptionsInterfaceName_def
      getTsOperationOptionsInterface_def getTsOperationOptionsInterface_groups_def
      getTsOperationOptionsInterface_imports_def getTsParam_def getTsParameterType_def
      mapType_def example_operation_def example_path_parameter_def example_options_def)




text \<open>
  Claim C4, as the code has it. The name of the options declaration is \<^verbatim>\<open>I\<close>, the
  nickname as it is written, and \<^verbatim>\<open>Options\<close>; this is the name the declaration is
  rendered under. For the nickname \<^verbatim>\<open>getPet\<close> it is \<^verbatim>\<open>IgetPetOptions\<close>: the nickname is
  not capitalised.
\<close>

theorem getTsOperationOptionsInterfaceName_verbatim:
  \<open>getTsOperationOptionsInterfaceName operation = ''I'' @ op_nickname operation @ ''Options''
   \<and> getTsOperationOptionsInterfaceName (operation\<lparr>op_nickname := ''getPet''\<rparr>) = ''IgetPetOptions''
   \<and> (\<exists>fields. getTsOperationOptionsInterface operation options =
         getTsOperationOptionsInterface_imports operation options
         @ ''export interface I'' @ op_nickname operation @ ''Options extends IOperationOptions {''
         @ fields)
   \<and> (\<exists>fields. getTsOperationOptionsInterface2 operation options =
         getTsOperationOptionsInterface2_imports operation options
         @ ''export interface I'' @ op_nickname operation @ ''Options extends IOperationOptions {''
         @ fields)\<close>
  using getTsOperationOptionsInterface2_header[of operation options]
  by (simp add: getTsOperationOptionsInterface_text getTsOperationOptionsInterfaceName_def)

theorem getTsOperationOptionsInterfaceName_counterexample:
  \<open>getTsOperationOptionsInterfaceName example_operation \<noteq> ''IGetPetOptions''
   \<and> op_nickname example_operation = ''getPet''\<close>
  by (simp add: getTsOperationOptionsInterfaceName_def example_operation_def)

text \<open>
  Claim C5. In the model declaration of either module every property of the model is one
  field, and the field carries the marker \<^verbatim>\<open>?\<close> exactly when its name is not in the list
  of required fields of the model.
\<close>

theorem getTsInterface_optional_marker:
  \<open>getTsInterface model options =
     getTsInterface_imports model options
     @ ''export interface '' @ getTsInterfaceName (model_id model) @ '' {''
     @ concat (map (\<lambda>(name, property).
         ''\<newline>''
         @ (if truthy_str (prop_description property)
            then ''  // '' @ the (prop_description property) else '''')
         @ ''\<newline>  '' @ name @ (if name \<in> set (model_required model) then '''' else ''?'')
         @ '': '' @ getTsPropertyType property @ '';'') (model_properties model))
     @ ''\<newline>}''
   \<and> getTsInterface2 model options =
     getTsInterface_imports model options
     @ ''export interface '' @ getTsInterfaceName (model_id model) @ '' {''
     @ concat (map (\<lambda>(name, property).
         ''\<newline>''
         @ (if truthy_str (prop_description property)
            then ''  // '' @ the (prop_description property) @ ''\<newline>'' else '''')
         @ ''  '' @ name @ (if name \<in> set (model_required model) then '''' else ''?'')
         @ '': '' @ getTsType property @ '';\<newline>'') (model_properties model))
     @ ''}\<newline>''\<close>
proof -
  have 1: \<open>getTsInterface_field model [] = (\<lambda>(name, property).
         ''\<newline>''
         @ (if truthy_str (prop_description property)
            then ''  // '' @ the (prop_description property) else '''')
         @ ''\<newline>  '' @ name @ (if name \<in> set (model_required model) then '''' else ''?'')
         @ '': '' @ getTsPropertyType property @ '';'')\<close>
    by (rule ext) (simp add: getTsInterface_field_text split: prod.splits)
  have 2: \<open>getTsInterface2_field model [] = (\<lambda>(name, property).
         ''\<newline>''
         @ (if truthy_str (prop_description property)
            then ''  // '' @ the (prop_description property) @ ''\<newline>'' else '''')
         @ ''  '' @ name @ (if name \<in> set (model_required model) then '''' else ''?'')
         @ '': '' @ getTsType property @ '';\<newline>'')\<close>
    by (rule ext) (simp add: getTsInterface2_field_text split: prod.splits)
  show ?thesis
    unfolding getTsInterface_text getTsInterface2_text 1 2 by simp
qed

text \<open>
  Claim C6. In split mode the model declaration is preceded by one import line for every
  referenced model, each model once. \<^verbatim>\<open>getTsInterface\<close> collects the references of the
  properties and of their array elements but does not pass them through \<^verbatim>\<open>uniq\<close>, as the
  import lines of the options declaration and of the class are: a model with two
  properties that refer to the model \<^verbatim>\<open>User\<close> and an array of \<^verbatim>\<open>Line\<close> is rendered
  with the import line of \<^verbatim>\<open>IUser\<close> twice, in both modules.
\<close>

theorem getTsInterface_duplicate_imports:
  \<open>getTsInterface example_order (example_options\<lparr>opt_splitInterfaces := True\<rparr>) =
     ''import { IUser } from "./IUser";\<newline>import { IUser } from "./IUser";\<newline>''
     @ ''import { ILine } from "./ILine";\<newline>\<newline>''
     @ ''export interface IOrder {\<newline>\<newline>  buyer?: IUser;\<newline>\<newline>  seller?: IUser;''
     @ ''\<newline>\<newline>  lines?: ILine[];\<newline>}''
   \<and> getTsInterface2 example_order (example_options\<lparr>opt_splitInterfaces := True\<rparr>) =
     ''import { IUser } from "./IUser";\<newline>import { IUser } from "./IUser";\<newline>''
     @ ''import { ILine } from "./ILine";\<newline>\<newline>''
     @ ''export interface IOrder {\<newline>  buyer?: IUser;\<newline>\<newline>  seller?: IUser;\<newline>''
     @ ''\<newline>  lines?: ILine[];\<newline>}\<newline>''\<close>
  by (simp add: getTsInterface_def getTsInterface2_def getTsInterface_imports_def
      getTsInterface_interfaces_def getTsInterface_field_def getTsInterface2_field_def Let_def
      getTsInterfaceName_def example_order_def example_options_def)

text \<open>
  Claim C7. Merging the fetched resources \<open>[A, B]\<close> for a group class yields a resource
  in which a model identifier defined by \<open>B\<close> has the definition of \<open>B\<close>, also when \<open>A\<close>
  defines it, and whose list of operation groups is that of \<open>A\<close> followed by that of \<open>B\<close>.
  The identifiers of the models of a resource are distinct, as the keys of an object are.
  This merged resource is the one the class file of the group is rendered from
  (\<open>generateApis_with_group\<close>).
\<close>

theorem generateApis_merge_last_wins:
  assumes \<open>map_of (api_models B) X = Some mB\<close> and \<open>distinct (map fst (api_models B))\<close>
  shows \<open>\<exists>merged. reduce generateApis_merge [A, B] = Inr merged
           \<and> map_of (api_models merged) X = Some mB
           \<and> api_apis merged = api_apis A @ api_apis B\<close>
  using assms by (simp add: generateApis_merge_def map_of_spread)

theorem generateApis_merge_last_wins_witness:
  \<open>map_of (api_models (example_api ''a'')) ''X'' = Some (example_model ''a'')
   \<and> map_of (api_models (example_api ''b'')) ''X'' = Some (example_model ''b'')
   \<and> distinct (map fst (api_models (example_api ''b'')))
   \<and> example_model ''a'' \<noteq> example_model ''b''
   \<and> reduce generateApis_merge [example_api ''a'', example_api ''b''] =
       Inr ((example_api ''a'')
              \<lparr>api_apis := [\<lparr>ao_operations = [], ao_path = ''/a''\<rparr>,
                            \<lparr>ao_operations = [], ao_path = ''/b''\<rparr>],
               api_models := [(''X'', example_model ''b'')]\<rparr>)\<close>
  using generateApis_merge_last_wins[of \<open>example_api ''b''\<close> \<open>''X''\<close> \<open>example_model ''b''\<close>
      \<open>example_api ''a''\<close>]
  by (simp add: example_api_def example_model_def generateApis_merge_def spread_def)

text \<open>
  Claim C8. With a group class configured and an index that lists no resource, the run
  of either module ends in the \<^verbatim>\<open>TypeError\<close> of reducing an empty list, and the world it
  leaves is the one the loading of the index left: the template has been copied, and no
  class file is written.
\<close>

theorem generateApis_no_resources_fails:
  assumes \<open>opt_groupClass options \<noteq> []\<close>
    and \<open>files w (dirname @ ''/../template/Api.ts'') = Some template\<close>
    and \<open>asISchemaApi v = Some schemaApi\<close> and \<open>schema_apis schemaApi = []\<close>
    and \<open>copied = writeFile (opt_dest options @ ''/Api.ts'') template
                    (if opt_splitInterfaces options
                     then mkdir (opt_dest options @ ''/interfaces'') (mkdir (opt_dest options) w)
                     else mkdir (opt_dest options) w)\<close>
  shows \<open>(getJson N net (opt_url options) copied = (Inr v, w2)
            \<longrightarrow> generateApis lower N net dirname options w = (Inl TypeError, w2))
         \<and> (getJson2 N net (opt_url options) copied = (Inr v, w2)
            \<longrightarrow> generateApis2 lower N net dirname options w = (Inl TypeError, w2))\<close>
  using assms
    generateApis_with_no_resources[of options w dirname template \<open>getJson N\<close> net v w2 schemaApi
      lower \<open>getTsApi lower\<close> getTsInterface getTsOperationOptionsInterface]
    generateApis_with_no_resources[of options w dirname template \<open>getJson2 N\<close> net v w2 schemaApi
      lower \<open>getTsApi2 lower\<close> getTsInterface2 getTsOperationOptionsInterface2]
  by (simp add: generateApis_def generateApis2_def)

theorem generateApis_no_resources_fails_witness:
  \<open>opt_groupClass example_options \<noteq> []
   \<and> files example_world (''/app/src'' @ ''/../template/Api.ts'') = Some ''export class Api {}''
   \<and> fst (generateApis example_lower integer_numbers [example_url \<mapsto> example_index] ''/app/src''
            example_options example_world)
       = Inl TypeError
   \<and> fst (generateApis2 example_lower integer_numbers [example_url \<mapsto> example_index] ''/app/src''
            example_options example_world)
       = Inl TypeError
   \<and> files (snd (generateApis example_lower integer_numbers [example_url \<mapsto> example_index]
                    ''/app/src'' example_options example_world)) ''./generated/All.ts'' = None
   \<and> files (snd (generateApis example_lower integer_numbers [example_url \<mapsto> example_index]
                    ''/app/src'' example_options example_world)) ''./generated/Api.ts''
       = Some ''export class Api {}''\<close>
proof -
  define net where \<open>net = [example_url \<mapsto> example_index]\<close>
  define copied where
    \<open>copied = writeFile (opt_dest example_options @ ''/Api.ts'') ''export class Api {}''
                (if opt_splitInterfaces example_options
                 then mkdir (opt_dest example_options @ ''/interfaces'')
                        (mkdir (opt_dest example_options) example_world)
                 else mkdir (opt_dest example_options) example_world)\<close>
  define d :: \<open>int json\<close>
    where \<open>d = JObj [(''apis'', JArr []), (''basePath'', JStr ''http://x/api'')]\<close>
  define w2 where
    \<open>w2 = writeFile (cache_filename example_url) (JSON_stringify integer_numbers d)
            ((mkdir ''./cache'' copied)\<lparr>requests := requests copied @ [example_url]\<rparr>)\<close>
  have g: \<open>opt_groupClass example_options \<noteq> []\<close>
    by (simp add: example_options_def)
  have u: \<open>opt_url example_options = example_url\<close>
    by (simp add: example_options_def)
  have t: \<open>files example_world (''/app/src'' @ ''/../template/Api.ts'') = Some ''export class Api {}''\<close>
    by (simp add: example_world_def)
  have miss: \<open>files copied (cache_filename example_url) = None\<close>
    by (simp add: copied_def example_options_def example_world_def example_url_def
        cache_filename_def writeFile_def mkdir_def)
  have n: \<open>net example_url = Some example_index\<close>
    by (simp add: net_def)
  have p: \<open>JSON_parse integer_numbers example_index = Inr d\<close>
    by (simp add: example_index_def d_def JSON_index_example)
  have l1: \<open>getJson integer_numbers net (opt_url example_options) copied = (Inr (Json d), w2)\<close>
    using getJson_miss(1)[of copied example_url net example_index integer_numbers d] miss n p
    by (simp add: w2_def u)
  have l2: \<open>getJson2 integer_numbers net (opt_url example_options) copied = (Inr (Json d), w2)\<close>
    using getJson_miss(2)[of copied example_url net example_index integer_numbers d] miss n p
    by (simp add: w2_def u)
  have dec: \<open>asISchemaApi (Json d) = Some \<lparr>schema_apis = [], schema_basePath = ''http://x/api''\<rparr>\<close>
    by (simp add: asISchemaApi_def get_list_def get_string_def d_def)
  have e: \<open>schema_apis \<lparr>schema_apis = [], schema_basePath = ''http://x/api''\<rparr> = []\<close>
    by simp
  from generateApis_no_resources_fails[of example_options example_world \<open>''/app/src''\<close>
      \<open>''export class Api {}''\<close> \<open>Json d\<close> \<open>\<lparr>schema_apis = [], schema_basePath = ''http://x/api''\<rparr>\<close>
      copied integer_numbers net w2 example_lower] g t dec e copied_def l1 l2
  have r: \<open>generateApis example_lower integer_numbers net ''/app/src'' example_options example_world
             = (Inl TypeError, w2)\<close>
      \<open>generateApis2 example_lower integer_numbers net ''/app/src'' example_options example_world
         = (Inl TypeError, w2)\<close>
    by simp_all
  have f1: \<open>files w2 ''./generated/All.ts'' = None\<close>
    by (simp add: w2_def copied_def example_options_def example_world_def example_url_def
        cache_filename_def writeFile_def mkdir_def)
  have f2: \<open>files w2 ''./generated/Api.ts'' = Some ''export class Api {}''\<close>
    by (simp add: w2_def copied_def example_options_def example_world_def example_url_def
        cache_filename_def writeFile_def mkdir_def)
  show ?thesis
    using g t r f1 f2 by (simp add: net_def)
qed

text \<open>
  Claim C9, as the code has it. In both modules the name of the generated method is the
  nickname with the character that \<^verbatim>\<open>charAt(0)\<close> gives lowered by the platform and the
  other characters as they are, while the name of the options declaration holds the
  nickname as it is. A letter A to Z becomes the letter a to z, any other character below
  U+0080 stays, and a character from U+0080 on within the basic plane becomes what \<open>lower\<close>
  makes of it. A nickname that starts with a character beyond the basic plane stays as it
  is, since \<^verbatim>\<open>charAt(0)\<close> is then half of a surrogate pair. So the method name differs from
  the nickname exactly when lowering changes what \<^verbatim>\<open>charAt(0)\<close> gives; it does for every
  nickname that starts with a letter A to Z. This holds for every platform \<open>lower\<close>.
\<close>

theorem getTsOperation_method_name:
  \<open>(\<exists>rest. getTsOperation lower operation url =
        getJsDocOperation operation
        @ ''\<newline>  async '' @ unTitleCase lower (op_nickname operation) @ ''(options'' @ rest)
   \<and> (\<exists>comment rest. getTsOperation2 lower operation url =
        comment @ ''  async '' @ unTitleCase lower (op_nickname operation) @ ''(options'' @ rest)
   \<and> unTitleCase lower (op_nickname operation) =
       (if op_nickname operation = [] \<or> is_lead4 (hd (op_nickname operation))
        then op_nickname operation
        else toLowerCase lower
               (take (char_width (hd (op_nickname operation))) (op_nickname operation))
             @ drop (char_width (hd (op_nickname operation))) (op_nickname operation))
   \<and> (op_nickname operation \<noteq> [] \<and> is_ascii (hd (op_nickname operation))
        \<longrightarrow> unTitleCase lower (op_nickname operation)
              = toLowerCase_ascii (hd (op_nickname operation)) # tl (op_nickname operation))
   \<and> (op_nickname operation \<noteq> [] \<and> \<not> is_ascii (hd (op_nickname operation))
          \<and> \<not> is_lead4 (hd (op_nickname operation))
        \<longrightarrow> unTitleCase lower (op_nickname operation)
              = lower (take (char_width (hd (op_nickname operation))) (op_nickname operation))
                @ drop (char_width (hd (op_nickname operation))) (op_nickname operation))
   \<and> map toLowerCase_ascii upper_letters = lower_letters
   \<and> (\<forall>c. is_ascii c \<and> c \<notin> set upper_letters \<longrightarrow> toLowerCase_ascii c = c)
   \<and> getTsOperationOptionsInterfaceName operation = ''I'' @ op_nickname operation @ ''Options''
   \<and> (unTitleCase lower (op_nickname operation) \<noteq> op_nickname operation \<longleftrightarrow>
        op_nickname operation \<noteq> [] \<and> \<not> is_lead4 (hd (op_nickname operation))
        \<and> toLowerCase lower
              (take (char_width (hd (op_nickname operation))) (op_nickname operation))
            \<noteq> take (char_width (hd (op_nickname operation))) (op_nickname operation))
   \<and> (op_nickname operation \<noteq> [] \<and> hd (op_nickname operation) \<in> set upper_letters
        \<longrightarrow> unTitleCase lower (op_nickname operation) \<noteq> op_nickname operation)\<close>
proof -
  have 1: \<open>\<exists>rest. getTsOperation lower operation url =
        getJsDocOperation operation
        @ ''\<newline>  async '' @ unTitleCase lower (op_nickname operation) @ ''(options'' @ rest\<close>
    by (simp add: getTsOperation_text)
  have 2: \<open>unTitleCase lower (op_nickname operation) =
       (if op_nickname operation = [] \<or> is_lead4 (hd (op_nickname operation))
        then op_nickname operation
        else toLowerCase lower
               (take (char_width (hd (op_nickname operation))) (op_nickname operation))
             @ drop (char_width (hd (op_nickname operation))) (op_nickname operation))\<close>
    by (rule unTitleCase_text)
  have 3: \<open>map toLowerCase_ascii upper_letters = lower_letters\<close>
    by (simp add: toLowerCase_ascii_def upper_letters_def lower_letters_def)
  have 4: \<open>op_nickname operation \<noteq> [] \<and> is_ascii (hd (op_nickname operation))
        \<longrightarrow> unTitleCase lower (op_nickname operation)
              = toLowerCase_ascii (hd (op_nickname operation)) # tl (op_nickname operation)\<close>
    by (cases \<open>op_nickname operation\<close>) (simp_all add: unTitleCase_ascii del: unTitleCase.simps)
  have 5: \<open>\<exists>comment rest. getTsOperation2 lower operation url =
        comment @ ''  async '' @ unTitleCase lower (op_nickname operation) @ ''(options'' @ rest\<close>
  proof (intro exI)
    show \<open>getTsOperation2 lower operation url =
        (if op_summary operation \<noteq> [] then ''  // '' @ op_summary operation @ ''\<newline>'' else '''')
        @ ''  async '' @ unTitleCase lower (op_nickname operation) @ ''(options''
        @ ('': '' @ getTsOperationOptionsInterfaceName operation
           @ ''): Promise<'' @ getTsInterfaceName (op_type operation) @ ''> {\<newline>''
           @ ''    return this.requestJson({ method: '' @ quoted (op_method operation)
           @ '', path: '' @ quoted url @ '', ...options });\<newline>''
           @ ''  }\<newline>'')\<close>
      by (simp add: getTsOperation2_text)
  qed
  have 6: \<open>op_nickname operation \<noteq> [] \<and> \<not> is_ascii (hd (op_nickname operation))
          \<and> \<not> is_lead4 (hd (op_nickname operation))
        \<longrightarrow> unTitleCase lower (op_nickname operation)
              = lower (take (char_width (hd (op_nickname operation))) (op_nickname operation))
                @ drop (char_width (hd (op_nickname operation))) (op_nickname operation)\<close>
    by (cases \<open>op_nickname operation\<close>) (simp_all add: toLowerCase_def char_width_def)
  have 7: \<open>op_nickname operation \<noteq> [] \<and> hd (op_nickname operation) \<in> set upper_letters
        \<longrightarrow> unTitleCase lower (op_nickname operation) \<noteq> op_nickname operation\<close>
    by (cases \<open>op_nickname operation\<close>)
      (simp_all add: unTitleCase_ascii upper_letters_ascii toLowerCase_ascii_upper
        del: unTitleCase.simps)
  show ?thesis
    using 1 3 4 5 6 7 toLowerCase_ascii_other unTitleCase_differs[of lower \<open>op_nickname operation\<close>]
    by (simp add: getTsOperationOptionsInterfaceName_def unTitleCase_text)
qed

theorem getTsOperation_method_name_witness:
  \<open>op_nickname (example_operation\<lparr>op_nickname := ''GetPet''\<rparr>) \<noteq> []
   \<and> hd (op_nickname (example_operation\<lparr>op_nickname := ''GetPet''\<rparr>)) \<in> set upper_letters
   \<and> is_ascii (hd (op_nickname (example_operation\<lparr>op_nickname := ''GetPet''\<rparr>)))
   \<and> unTitleCase example_lower (op_nickname (example_operation\<lparr>op_nickname := ''GetPet''\<rparr>))
       = ''getPet''
   \<and> unTitleCase example_lower (op_nickname (example_operation\<lparr>op_nickname := ''GetPet''\<rparr>))
       \<noteq> op_nickname (example_operation\<lparr>op_nickname := ''GetPet''\<rparr>)
   \<and> getTsOperationOptionsInterfaceName (example_operation\<lparr>op_nickname := ''GetPet''\<rparr>)
       = ''IGetPetOptions''
   \<and> CHR ''g'' \<notin> set upper_letters \<and> toLowerCase_ascii CHR ''g'' = CHR ''g''
   \<and> op_nickname (example_operation\<lparr>op_nickname := [CHR 0xC3, CHR 0x89] @ ''clair''\<rparr>) \<noteq> []
   \<and> \<not> is_ascii
         (hd (op_nickname (example_operation\<lparr>op_nickname := [CHR 0xC3, CHR 0x89] @ ''clair''\<rparr>)))
   \<and> \<not> is_lead4
         (hd (op_nickname (example_operation\<lparr>op_nickname := [CHR 0xC3, CHR 0x89] @ ''clair''\<rparr>)))
   \<and> unTitleCase example_lower
         (op_nickname (example_operation\<lparr>op_nickname := [CHR 0xC3, CHR 0x89] @ ''clair''\<rparr>))
       = [CHR 0xC3, CHR 0xA9] @ ''clair''
   \<and> unTitleCase example_lower
         (op_nickname (example_operation\<lparr>op_nickname := [CHR 0xC3, CHR 0x89] @ ''clair''\<rparr>))
       \<noteq> op_nickname (example_operation\<lparr>op_nickname := [CHR 0xC3, CHR 0x89] @ ''clair''\<rparr>)\<close>
  using getTsOperation_method_name[of example_lower
      \<open>example_operation\<lparr>op_nickname := ''GetPet''\<rparr>\<close> \<open>''/pets''\<close>]
    getTsOperation_method_name[of example_lower
      \<open>example_operation\<lparr>op_nickname := [CHR 0xC3, CHR 0x89] @ ''clair''\<rparr>\<close> \<open>''/pets''\<close>]
  by (simp add: upper_letters_def lower_letters_def toLowerCase_ascii_def is_ascii_def
      is_lead4_def char_width_def toLowerCase_def deseret_capital_long_i_def)

text \<open>
  The claim as it was stated fails on a nickname that starts with an upper-case letter
  which \<^verbatim>\<open>charAt(0).toLowerCase()\<close> leaves as it is. The letter U+10400 is lowered to
  U+10428 by the platform, but \<^verbatim>\<open>charAt(0)\<close> gives the first half of its surrogate pair:
  the first character of the nickname is not lowered and the method name is the nickname.
  The upper-case letter U+2102 has no lower-case form: the method name is the nickname
  here too.
\<close>

theorem getTsOperation_method_name_counterexample:
  \<open>example_lower deseret_capital_long_i = deseret_small_long_i
   \<and> deseret_small_long_i \<noteq> deseret_capital_long_i
   \<and> unTitleCase example_lower
         (op_nickname (example_operation\<lparr>op_nickname := deseret_capital_long_i @ ''x''\<rparr>))
       = op_nickname (example_operation\<lparr>op_nickname := deseret_capital_long_i @ ''x''\<rparr>)
   \<and> unTitleCase example_lower
         (op_nickname (example_operation\<lparr>op_nickname := deseret_capital_long_i @ ''x''\<rparr>))
       \<noteq> example_lower deseret_capital_long_i @ ''x''
   \<and> getTsOperation2 example_lower
         (example_operation\<lparr>op_nickname := deseret_capital_long_i @ ''x''\<rparr>) ''/pets''
       = ''  async '' @ deseret_capital_long_i @ ''x(options: I'' @ deseret_capital_long_i
         @ ''xOptions): Promise<IPet> {\<newline>''
         @ ''    return this.requestJson({ method: \'GET\', path: \'/pets\', ...options });\<newline>''
         @ ''  }\<newline>''
   \<and> unTitleCase example_lower
         (op_nickname (example_operation\<lparr>op_nickname := double_struck_capital_c @ ''ount''\<rparr>))
       = op_nickname (example_operation\<lparr>op_nickname := double_struck_capital_c @ ''ount''\<rparr>)\<close>
  by (simp add: deseret_capital_long_i_def deseret_small_long_i_def double_struck_capital_c_def
      getTsOperation2_def example_operation_def Let_def getTsOperationOptionsInterfaceName_def
      getTsInterfaceName_def quoted_def is_ascii_def is_lead4_def char_width_def toLowerCase_def
      toLowerCase_ascii_def upper_letters_def lower_letters_def)

text \<open>
  Claim C10. A property whose type is \<^verbatim>\<open>array\<close> and that has neither an \<^verbatim>\<open>items\<close>
  sub-schema nor a reference gets the type text \<^verbatim>\<open>array\<close>: the tag goes through the
  fallback of \<^verbatim>\<open>mapType\<close>. Both modules agree.
\<close>

theorem getTsPropertyType_array_without_items:
  assumes \<open>prop_type property = Some ''array''\<close> and \<open>prop_items property = None\<close>
    and \<open>prop_ref property = None\<close>
  shows \<open>getTsPropertyType property = ''array'' \<and> getTsType property = ''array''
         \<and> mapType (prop_type property) = ''array''\<close>
  using assms by (simp add: mapType_def)

theorem getTsPropertyType_array_without_items_witness:
  \<open>prop_type (IModelProperty (Some ''array'') None None None None) = Some ''array''
   \<and> prop_items (IModelProperty (Some ''array'') None None None None) = None
   \<and> prop_ref (IModelProperty (Some ''array'') None None None None) = None
   \<and> getTsPropertyType (IModelProperty (Some ''array'') None None None None) = ''array''
   \<and> getTsType (IModelProperty (Some ''array'') None None None None) = ''array''\<close>
  using getTsPropertyType_array_without_items[of \<open>IModelProperty (Some ''array'') None None None None\<close>]
  by simp

end
